theory Spec2Isabelle
  imports Complex_Main "HOL-Library.Char_ord" "HOL-Library.List_Lexorder"
begin

section \<open>JavaScript numbers\<close>

text \<open>
  A JavaScript number is an IEEE-754 double: NaN, one of the two infinities, or a finite
  value, which is modelled by the real number it denotes. The sign of zero is not
  modelled. The special values follow IEEE-754: \<open>Infinity - Infinity\<close> and
  \<open>Infinity * 0\<close> are NaN, every comparison with NaN is false.
\<close>

datatype jsnum = NaN | NegInf | Fin real | PosInf

text \<open>
  The result of an arithmetic operation on finite doubles is the exact result rounded to
  the nearest double, a tie going to the even significand. A double has a significand of
  53 bits; below \<open>2^-1022\<close> the spacing stays \<open>2^-1074\<close> (subnormal numbers, underflow to
  zero), and a rounded result of magnitude \<open>2^1024\<close> or more is an infinity.
\<close>

definition round_even :: "real \<Rightarrow> int" where
  "round_even q =
     (let f = \<lfloor>q\<rfloor>; d = q - of_int f
      in if d < 1 / 2 then f else if 1 / 2 < d then f + 1 else if even f then f else f + 1)"

definition pow2 :: "int \<Rightarrow> real" where
  "pow2 k = (if 0 \<le> k then 2 ^ nat k else 1 / 2 ^ nat (- k))"

definition fl :: "real \<Rightarrow> jsnum" where
  "fl x =
     (if x = 0 then Fin 0
      else (let e = max \<lfloor>log 2 \<bar>x\<bar>\<rfloor> (- 1022);
                ulp = pow2 (e - 52);
                y = of_int (round_even (x / ulp)) * ulp
            in if 2 ^ 1024 \<le> y then PosInf
               else if y \<le> - (2 ^ 1024) then NegInf
               else Fin y))"

fun js_sub :: "jsnum \<Rightarrow> jsnum \<Rightarrow> jsnum" where
  "js_sub (Fin a) (Fin b) = fl (a - b)"
| "js_sub NaN _ = NaN"
| "js_sub _ NaN = NaN"
| "js_sub PosInf PosInf = NaN"
| "js_sub NegInf NegInf = NaN"
| "js_sub PosInf _ = PosInf"
| "js_sub NegInf _ = NegInf"
| "js_sub _ PosInf = NegInf"
| "js_sub _ NegInf = PosInf"

fun js_add :: "jsnum \<Rightarrow> jsnum \<Rightarrow> jsnum" where
  "js_add (Fin a) (Fin b) = fl (a + b)"
| "js_add NaN _ = NaN"
| "js_add _ NaN = NaN"
| "js_add PosInf NegInf = NaN"
| "js_add NegInf PosInf = NaN"
| "js_add PosInf _ = PosInf"
| "js_add NegInf _ = NegInf"
| "js_add _ PosInf = PosInf"
| "js_add _ NegInf = NegInf"

fun js_mul :: "jsnum \<Rightarrow> jsnum \<Rightarrow> jsnum" where
  "js_mul (Fin a) (Fin b) = fl (a * b)"
| "js_mul NaN _ = NaN"
| "js_mul _ NaN = NaN"
| "js_mul PosInf PosInf = PosInf"
| "js_mul NegInf NegInf = PosInf"
| "js_mul PosInf NegInf = NegInf"
| "js_mul NegInf PosInf = NegInf"
| "js_mul PosInf (Fin b) = (if b = 0 then NaN else if 0 < b then PosInf else NegInf)"
| "js_mul NegInf (Fin b) = (if b = 0 then NaN else if 0 < b then NegInf else PosInf)"
| "js_mul (Fin a) PosInf = (if a = 0 then NaN else if 0 < a then PosInf else NegInf)"
| "js_mul (Fin a) NegInf = (if a = 0 then NaN else if 0 < a then NegInf else PosInf)"

text \<open>The quotient; a zero divisor counts as \<open>+0\<close>.\<close>

fun js_div :: "jsnum \<Rightarrow> jsnum \<Rightarrow> jsnum" where
  "js_div (Fin a) (Fin b) =
     (if b = 0 then (if a = 0 then NaN else if 0 < a then PosInf else NegInf) else fl (a / b))"
| "js_div NaN _ = NaN"
| "js_div _ NaN = NaN"
| "js_div PosInf (Fin b) = (if 0 \<le> b then PosInf else NegInf)"
| "js_div NegInf (Fin b) = (if 0 \<le> b then NegInf else PosInf)"
| "js_div (Fin a) _ = Fin 0"
| "js_div _ _ = NaN"

text \<open>
  \<open>Math.sqrt\<close>: the square root rounded to the nearest double, the IEEE-754 operation.
\<close>

fun js_sqrt :: "jsnum \<Rightarrow> jsnum" where
  "js_sqrt (Fin x) = (if x < 0 then NaN else fl (sqrt x))"
| "js_sqrt PosInf = PosInf"
| "js_sqrt NegInf = NaN"
| "js_sqrt NaN = NaN"

text \<open>The comparisons \<open><=\<close> and \<open><\<close> of two numbers.\<close>

fun js_le :: "jsnum \<Rightarrow> jsnum \<Rightarrow> bool" where
  "js_le (Fin a) (Fin b) = (a \<le> b)"
| "js_le NaN _ = False"
| "js_le _ NaN = False"
| "js_le NegInf _ = True"
| "js_le _ PosInf = True"
| "js_le PosInf _ = False"
| "js_le _ NegInf = False"

fun js_lt :: "jsnum \<Rightarrow> jsnum \<Rightarrow> bool" where
  "js_lt (Fin a) (Fin b) = (a < b)"
| "js_lt NaN _ = False"
| "js_lt _ NaN = False"
| "js_lt PosInf _ = False"
| "js_lt _ NegInf = False"
| "js_lt NegInf _ = True"
| "js_lt _ PosInf = True"

text \<open>
  Reading \<open>a[i]\<close>: an index outside the array yields \<open>undefined\<close> (here \<open>None\<close>),
  which arithmetic converts to NaN.
\<close>

definition js_index :: "'a list \<Rightarrow> nat \<Rightarrow> 'a option" where
  "js_index xs i = (if i < length xs then Some (xs ! i) else None)"

fun ToNumber :: "jsnum option \<Rightarrow> jsnum" where
  "ToNumber None = NaN"
| "ToNumber (Some x) = x"

section \<open>The runtime's JSON parser and number coercion\<close>

text \<open>
  \<open>JSON.parse\<close> and \<open>Number\<close> belong to the JavaScript runtime, not to the repository.
  They are parameters of the model: \<open>JSON_parse\<close> returns \<open>None\<close> where the runtime
  throws a SyntaxError, and \<open>Number\<close> coerces a parsed JSON value to a number.
\<close>

datatype json =
    JNull
  | JBool bool
  | JNumber jsnum
  | JString string
  | JArray "json list"
  | JObject "(string \<times> json) list"

record runtime =
  JSON_parse :: "string \<Rightarrow> json option"
  Number :: "json \<Rightarrow> jsnum"

section \<open>shared/schema.ts: the tables\<close>

text \<open>A nullable column is an \<open>option\<close>. The two \<open>id\<close> and \<open>status\<close> columns carry a prefix.\<close>

record employee =
  e_id :: string
  firstName :: string
  lastName :: string
  email :: string
  department :: string
  position :: string
  photoUrl :: "string option"
  faceEmbedding :: "string option"
  e_status :: string

record attendance =
  a_id :: string
  employeeId :: string
  date :: string
  checkIn :: "string option"
  checkOut :: "string option"
  a_status :: string
  confidence :: "real option"

text \<open>
  \<open>InsertAttendance\<close>: the row without its id; \<open>status\<close> has a column default and may be
  omitted.
\<close>

record insert_attendance =
  i_employeeId :: string
  i_date :: string
  i_checkIn :: "string option"
  i_checkOut :: "string option"
  i_status :: "string option"
  i_confidence :: "real option"

text \<open>
  \<open>Partial<InsertAttendance>\<close>: every field may be absent (outer \<open>None\<close>); a nullable
  field that is present may be null (inner \<open>None\<close>).
\<close>

record attendance_updates =
  u_employeeId :: "string option"
  u_date :: "string option"
  u_checkIn :: "string option option"
  u_checkOut :: "string option option"
  u_status :: "string option"
  u_confidence :: "real option option"

text \<open>The database: the rows of the two tables the claims are about.\<close>

record db =
  employees :: "employee list"
  attendanceRecords :: "attendance list"

text \<open>Truthiness of a nullable string: \<open>null\<close>, \<open>undefined\<close> and \<open>""\<close> are falsy.\<close>

fun truthy :: "string option \<Rightarrow> bool" where
  "truthy None = False"
| "truthy (Some s) = (s \<noteq> [])"

section \<open>server/storage.ts: embedding lookup\<close>

definition parseEmbedding :: "runtime \<Rightarrow> string option \<Rightarrow> jsnum list option" where
  "parseEmbedding rt v =
     (if \<not> truthy v then None
      else (case JSON_parse rt (the v) of
              None \<Rightarrow> None
            | Some parsed \<Rightarrow>
                (case parsed of
                   JArray xs \<Rightarrow> Some (map (Number rt) xs)
                 | _ \<Rightarrow> None)))"

function euclideanDistance_loop :: "jsnum list \<Rightarrow> jsnum list \<Rightarrow> nat \<Rightarrow> jsnum \<Rightarrow> jsnum" where
  "euclideanDistance_loop a b i sum_acc =
     (if i < length a
      then (let d = js_sub (ToNumber (js_index a i)) (ToNumber (js_index b i))
            in euclideanDistance_loop a b (i + 1) (js_add sum_acc (js_mul d d)))
      else sum_acc)"
  by pat_completeness auto
termination
  by (relation "measure (\<lambda>(a, b, i, sum_acc). length a - i)") auto

declare euclideanDistance_loop.simps [simp del]

definition euclideanDistance :: "jsnum list \<Rightarrow> jsnum list \<Rightarrow> jsnum" where
  "euclideanDistance a b =
     (if length a \<noteq> length b then PosInf
      else js_sqrt (euclideanDistance_loop a b 0 (Fin 0)))"

text \<open>The literal \<open>0.6\<close> denotes the double nearest to six tenths.\<close>

definition THRESHOLD :: jsnum where
  "THRESHOLD = fl (6 / 10)"

text \<open>
  The \<open>for (const emp of candidates)\<close> loop of \<open>getEmployeeByEmbedding\<close>, with the
  variable \<open>best\<close> as accumulator.
\<close>

fun best_loop ::
  "runtime \<Rightarrow> jsnum list \<Rightarrow> employee list \<Rightarrow> (employee \<times> jsnum) option \<Rightarrow> (employee \<times> jsnum) option"
where
  "best_loop rt target [] best = best"
| "best_loop rt target (emp # rest) best =
     (case parseEmbedding rt (faceEmbedding emp) of
        None \<Rightarrow> best_loop rt target rest best
      | Some emb \<Rightarrow>
          (let dist = euclideanDistance target emb
           in if js_le dist THRESHOLD \<and> (best = None \<or> js_lt dist (snd (the best)))
              then best_loop rt target rest (Some (emp, dist))
              else best_loop rt target rest best))"

definition getEmployeeByEmbedding :: "runtime \<Rightarrow> string \<Rightarrow> employee list \<Rightarrow> employee option" where
  "getEmployeeByEmbedding rt embedding candidates =
     (case parseEmbedding rt (Some embedding) of
        None \<Rightarrow> None
      | Some target \<Rightarrow> map_option fst (best_loop rt target candidates None))"

section \<open>server/storage.ts: employees and attendance rows\<close>

text \<open>
  A table is the list of its rows; a query returns the matching rows in list order, and
  \<open>const [row] = ...\<close> takes the first of them. Column values are compared as plain
  strings.
\<close>

definition getAllEmployees :: "db \<Rightarrow> employee list" where
  "getAllEmployees d = employees d"

definition getEmployee :: "db \<Rightarrow> string \<Rightarrow> employee option" where
  "getEmployee d ident = find (\<lambda>e. e_id e = ident) (employees d)"

definition updateEmployee_embedding :: "db \<Rightarrow> string \<Rightarrow> string \<Rightarrow> string \<Rightarrow> employee option \<times> db" where
  \<comment> \<open>\<open>updateEmployee(id, {faceEmbedding, photoUrl})\<close>, the only update the routes below make\<close>
  "updateEmployee_embedding d ident emb photo_url =
     (let rows = map (\<lambda>e. if e_id e = ident
                            then e\<lparr>faceEmbedding := Some emb, photoUrl := Some photo_url\<rparr>
                            else e) (employees d)
      in (find (\<lambda>e. e_id e = ident) rows, d\<lparr>employees := rows\<rparr>))"

definition getAttendanceByEmployee :: "db \<Rightarrow> string \<Rightarrow> string \<Rightarrow> attendance option" where
  "getAttendanceByEmployee d eid dt =
     find (\<lambda>r. employeeId r = eid \<and> date r = dt) (attendanceRecords d)"

datatype db_error = DuplicatePrimaryKey

text \<open>
  \<open>createAttendance\<close>: the id comes from \<open>randomUUID()\<close> and is an input here. The
  \<open>id\<close> column is the primary key, so the insert throws when the id is taken.
\<close>

definition new_row :: "insert_attendance \<Rightarrow> string \<Rightarrow> attendance" where
  "new_row ins ident =
     \<lparr>a_id = ident, employeeId = i_employeeId ins, date = i_date ins,
      checkIn = i_checkIn ins, checkOut = i_checkOut ins,
      a_status = (case i_status ins of None \<Rightarrow> ''present'' | Some st \<Rightarrow> st),
      confidence = i_confidence ins\<rparr>"

definition createAttendance ::
  "db \<Rightarrow> insert_attendance \<Rightarrow> string \<Rightarrow> db_error + (attendance option \<times> db)" where
  "createAttendance d insertAttendance ident =
     (if ident \<in> set (map a_id (attendanceRecords d)) then Inl DuplicatePrimaryKey
      else (let rows = attendanceRecords d @ [new_row insertAttendance ident]
            in Inr (find (\<lambda>r. a_id r = ident) rows, d\<lparr>attendanceRecords := rows\<rparr>)))"

definition apply_updates :: "attendance_updates \<Rightarrow> attendance \<Rightarrow> attendance" where
  "apply_updates u r =
     r\<lparr>employeeId := (case u_employeeId u of None \<Rightarrow> employeeId r | Some v \<Rightarrow> v),
       date := (case u_date u of None \<Rightarrow> date r | Some v \<Rightarrow> v),
       checkIn := (case u_checkIn u of None \<Rightarrow> checkIn r | Some v \<Rightarrow> v),
       checkOut := (case u_checkOut u of None \<Rightarrow> checkOut r | Some v \<Rightarrow> v),
       a_status := (case u_status u of None \<Rightarrow> a_status r | Some v \<Rightarrow> v),
       confidence := (case u_confidence u of None \<Rightarrow> confidence r | Some v \<Rightarrow> v)\<rparr>"

definition updateAttendance :: "db \<Rightarrow> string \<Rightarrow> attendance_updates \<Rightarrow> attendance option \<times> db" where
  "updateAttendance d ident updates =
     (let rows = map (\<lambda>r. if a_id r = ident then apply_updates updates r else r)
                     (attendanceRecords d)
      in (find (\<lambda>r. a_id r = ident) rows, d\<lparr>attendanceRecords := rows\<rparr>))"

section \<open>server/storage.ts: reports\<close>

record dashboard_stats =
  presentToday :: int
  lateArrivals :: int
  absences :: int
  onTimePercentage :: jsnum

text \<open>
  \<open>Math.round\<close> rounds to the nearest integer, halves upwards. The counts are lengths
  of arrays, so they are doubles; the quotient and the product of the percentage are
  rounded to doubles before \<open>Math.round\<close> sees them.
\<close>

fun Math_round :: "jsnum \<Rightarrow> jsnum" where
  "Math_round (Fin x) = Fin (of_int \<lfloor>x + 1 / 2\<rfloor>)"
| "Math_round v = v"

definition getDashboardStats :: "db \<Rightarrow> string \<Rightarrow> dashboard_stats" where
  "getDashboardStats d dt =
     (let totalEmployees = int (length (employees d));
          todayRecords = filter (\<lambda>r. date r = dt) (attendanceRecords d);
          presentToday = int (length (filter (\<lambda>r. a_status r = ''present'' \<or> a_status r = ''late'') todayRecords));
          lateArrivals = int (length (filter (\<lambda>r. a_status r = ''late'') todayRecords));
          absences = totalEmployees - presentToday;
          onTimeCount = int (length (filter (\<lambda>r. a_status r = ''present'') todayRecords));
          onTimePercentage = (if presentToday > 0
                              then Math_round (js_mul (js_div (Fin (of_int onTimeCount))
                                                              (Fin (of_int presentToday)))
                                                      (Fin 100))
                              else Fin 0)
      in \<lparr>presentToday = presentToday, lateArrivals = lateArrivals,
          absences = absences, onTimePercentage = onTimePercentage\<rparr>)"

record weekly_stat =
  present :: int
  late :: int
  absent :: int

text \<open>The body of \<open>records.forEach\<close> in \<open>getWeeklyStats\<close>, on the map \<open>statsByDate\<close>.\<close>

definition count_record :: "(string \<rightharpoonup> weekly_stat) \<Rightarrow> attendance \<Rightarrow> (string \<rightharpoonup> weekly_stat)" where
  "count_record statsByDate r =
     (case statsByDate (date r) of
        None \<Rightarrow> statsByDate
      | Some stats \<Rightarrow>
          (if a_status r = ''present''
           then statsByDate(date r \<mapsto> stats\<lparr>present := present stats + 1, absent := absent stats - 1\<rparr>)
           else if a_status r = ''late''
           then statsByDate(date r \<mapsto> stats\<lparr>late := late stats + 1, absent := absent stats - 1\<rparr>)
           else statsByDate))"

text \<open>
  \<open>getWeeklyStats\<close>. The days from \<open>startDate\<close> to \<open>endDate\<close> are enumerated by the
  runtime's \<open>Date\<close>; the list \<open>days\<close> of the resulting date strings is an input. The
  range query compares dates as strings. The result lists one entry per day; the final
  sort of the entries by \<open>localeCompare\<close> is not modelled.
\<close>

definition getWeeklyStats :: "db \<Rightarrow> string list \<Rightarrow> string \<Rightarrow> string \<Rightarrow> (string \<times> weekly_stat) list" where
  "getWeeklyStats d days startDate endDate =
     (let totalEmployees = int (length (employees d));
          records = filter (\<lambda>r. startDate \<le> date r \<and> date r \<le> endDate) (attendanceRecords d);
          init = fold (\<lambda>dateStr m. m(dateStr \<mapsto> \<lparr>present = 0, late = 0, absent = totalEmployees\<rparr>))
                      days Map.empty;
          statsByDate = fold (\<lambda>r m. count_record m r) records init
      in map (\<lambda>dateStr. (dateStr, the (statsByDate dateStr))) (remdups days))"

section \<open>The routes\<close>

subsection \<open>POST /api/attendance\<close>

datatype attendance_response =
    Attendance_400
  | Attendance_404
  | Attendance_201 "attendance option"
  | Attendance_500

text \<open>The body is \<open>None\<close> when \<open>insertAttendanceSchema.safeParse\<close> rejects it.\<close>

definition post_attendance ::
  "insert_attendance option \<Rightarrow> string \<Rightarrow> db \<Rightarrow> attendance_response \<times> db" where
  "post_attendance body uuid d =
     (case body of
        None \<Rightarrow> (Attendance_400, d)
      | Some data \<Rightarrow>
          (case getEmployee d (i_employeeId data) of
             None \<Rightarrow> (Attendance_404, d)
           | Some employee \<Rightarrow>
               (case createAttendance d data uuid of
                  Inl err \<Rightarrow> (Attendance_500, d)
                | Inr (record, d') \<Rightarrow> (Attendance_201 record, d'))))"

subsection \<open>POST /api/face/recognize\<close>

datatype scan_type = check_in | check_out

datatype recognize_response =
    Recognize_400
  | No_faces_registered
  | Already_in_and_out employee
  | Recognized employee "attendance option" scan_type real
  | Recognize_500

text \<open>
  What the handler reads from outside: the request's photo, the two draws of
  \<open>Math.random()\<close> in the order they are made, the clock (\<open>today\<close> is the date part of
  \<open>toISOString()\<close>, \<open>currentTime\<close> the first five characters of \<open>toTimeString()\<close>), and the
  \<open>randomUUID()\<close> of \<open>createAttendance\<close>. The confidence is kept as the exact value of
  \<open>0.85 + r * 0.14\<close> for the draw \<open>r\<close>; its rounding to a double is not modelled.
\<close>

record recognize_input =
  photo :: "string option"
  random_index :: real
  random_confidence :: real
  today :: string
  currentTime :: string
  uuid :: string

definition recognize :: "recognize_input \<Rightarrow> db \<Rightarrow> recognize_response \<times> db" where
  "recognize inp d =
     (if \<not> truthy (photo inp) then (Recognize_400, d)
      else
        (let employeesWithEmbedding = filter (\<lambda>e. truthy (faceEmbedding e)) (getAllEmployees d)
         in if length employeesWithEmbedding = 0 then (No_faces_registered, d)
            else
              (let randomIndex = \<lfloor>random_index inp * real (length employeesWithEmbedding)\<rfloor>;
                   confidence = 85 / 100 + random_confidence inp * (14 / 100)
               in if randomIndex < 0 \<or> int (length employeesWithEmbedding) \<le> randomIndex
                  then (Recognize_500, d)
                  else
                    (let matchedEmployee = employeesWithEmbedding ! nat randomIndex
                     in case getAttendanceByEmployee d (e_id matchedEmployee) (today inp) of
                          None \<Rightarrow>
                            (let isLate = (currentTime inp > ''09:00'')
                             in case createAttendance d
                                       \<lparr>i_employeeId = e_id matchedEmployee,
                                        i_date = today inp,
                                        i_checkIn = Some (currentTime inp),
                                        i_checkOut = None,
                                        i_status = Some (if isLate then ''late'' else ''present''),
                                        i_confidence = Some confidence\<rparr>
                                       (uuid inp) of
                                  Inl err \<Rightarrow> (Recognize_500, d)
                                | Inr (attendance, d') \<Rightarrow>
                                    (Recognized matchedEmployee attendance check_in confidence, d'))
                        | Some existingAttendance \<Rightarrow>
                            (if \<not> truthy (checkOut existingAttendance)
                             then (let (attendance, d') =
                                         updateAttendance d (a_id existingAttendance)
                                           \<lparr>u_employeeId = None, u_date = None, u_checkIn = None,
                                            u_checkOut = Some (Some (currentTime inp)),
                                            u_status = None, u_confidence = None\<rparr>
                                   in (Recognized matchedEmployee attendance check_out confidence, d'))
                             else (Already_in_and_out matchedEmployee, d))))))"

subsection \<open>POST /api/face/embedding\<close>

datatype embedding_response =
    Embedding_400
  | Embedding_404
  | Embedding_ok "employee option"

text \<open>
  The stored text is \<open>embedding_<employeeId>_<Date.now()>\<close>; \<open>now\<close> is the decimal
  rendering of \<open>Date.now()\<close>.
\<close>

definition fakeEmbedding :: "string \<Rightarrow> string \<Rightarrow> string" where
  "fakeEmbedding employeeId' now = ''embedding_'' @ employeeId' @ ''_'' @ now"

definition post_embedding :: "string option \<Rightarrow> string option \<Rightarrow> string \<Rightarrow> db \<Rightarrow> embedding_response \<times> db" where
  "post_embedding photo' employeeId' now d =
     (if \<not> truthy photo' \<or> \<not> truthy employeeId' then (Embedding_400, d)
      else (case getEmployee d (the employeeId') of
              None \<Rightarrow> (Embedding_404, d)
            | Some employee \<Rightarrow>
                (let (updated, d') =
                       updateEmployee_embedding d (the employeeId')
                         (fakeEmbedding (the employeeId') now) (the photo')
                 in (Embedding_ok updated, d'))))"

section \<open>server/storage.ts: the seeded rows\<close>

text \<open>
  \<open>JSON.stringify\<close> of a string that needs no escaping: the string between double quotes.
\<close>

definition JSON_stringify :: "string \<Rightarrow> string" where
  "JSON_stringify s = [CHR 0x22] @ s @ [CHR 0x22]"

text \<open>
  \<open>initializeDatabase\<close> on a database without admin user: the five sample employees and
  their five attendance rows. The ids drawn by \<open>randomUUID()\<close> (five for the employees,
  five for the rows) and the day are inputs.
\<close>

definition sampleEmployees :: "employee list" where
  "sampleEmployees =
     [\<lparr>e_id = [], firstName = ''Maria'', lastName = ''Garcia'',
       email = ''maria.garcia@empresa.com'', department = ''Recursos Humanos'',
       position = ''Gerente de RH'', photoUrl = None,
       faceEmbedding = Some (JSON_stringify ''sample_embedding_1''), e_status = ''active''\<rparr>,
      \<lparr>e_id = [], firstName = ''Carlos'', lastName = ''Rodriguez'',
       email = ''carlos.rodriguez@empresa.com'', department = ''Tecnologia'',
       position = ''Desarrollador Senior'', photoUrl = None,
       faceEmbedding = Some (JSON_stringify ''sample_embedding_2''), e_status = ''active''\<rparr>,
      \<lparr>e_id = [], firstName = ''Ana'', lastName = ''Martinez'',
       email = ''ana.martinez@empresa.com'', department = ''Ventas'',
       position = ''Ejecutiva de Ventas'', photoUrl = None,
       faceEmbedding = Some (JSON_stringify ''sample_embedding_3''), e_status = ''active''\<rparr>,
      \<lparr>e_id = [], firstName = ''Juan'', lastName = ''Lopez'',
       email = ''juan.lopez@empresa.com'', department = ''Finanzas'',
       position = ''Contador'', photoUrl = None,
       faceEmbedding = None, e_status = ''active''\<rparr>,
      \<lparr>e_id = [], firstName = ''Sofia'', lastName = ''Hernandez'',
       email = ''sofia.hernandez@empresa.com'', department = ''Marketing'',
       position = ''Dise'' @ [CHR 0xE2, CHR 0x88, CHR 0x9A, CHR 0xC2, CHR 0xB1] @ ''adora Grafica'',
       photoUrl = None,
       faceEmbedding = Some (JSON_stringify ''sample_embedding_5''), e_status = ''active''\<rparr>]"

definition initializeDatabase :: "string list \<Rightarrow> string list \<Rightarrow> string \<Rightarrow> db" where
  "initializeDatabase employeeIds recordIds today' =
     \<lparr>employees = map (\<lambda>(emp, ident). emp\<lparr>e_id := ident\<rparr>) (zip sampleEmployees employeeIds),
      attendanceRecords =
        [\<lparr>a_id = recordIds ! 0, employeeId = employeeIds ! 0, date = today',
          checkIn = Some ''08:45'', checkOut = None, a_status = ''present'', confidence = Some (95 / 100)\<rparr>,
         \<lparr>a_id = recordIds ! 1, employeeId = employeeIds ! 1, date = today',
          checkIn = Some ''09:15'', checkOut = None, a_status = ''late'', confidence = Some (92 / 100)\<rparr>,
         \<lparr>a_id = recordIds ! 2, employeeId = employeeIds ! 2, date = today',
          checkIn = Some ''08:30'', checkOut = Some ''17:30'', a_status = ''present'', confidence = Some (98 / 100)\<rparr>,
         \<lparr>a_id = recordIds ! 3, employeeId = employeeIds ! 3, date = today',
          checkIn = None, checkOut = None, a_status = ''absent'', confidence = None\<rparr>,
         \<lparr>a_id = recordIds ! 4, employeeId = employeeIds ! 4, date = today',
          checkIn = Some ''08:55'', checkOut = None, a_status = ''present'', confidence = Some (89 / 100)\<rparr>]\<rparr>"

section \<open>Notions used in the properties\<close>

text \<open>The employee the first random draw of \<open>recognize\<close> selects, if the index is in range.\<close>

definition matchedEmployee :: "recognize_input \<Rightarrow> db \<Rightarrow> employee option" where
  "matchedEmployee inp d =
     (let employeesWithEmbedding = filter (\<lambda>e. truthy (faceEmbedding e)) (getAllEmployees d);
          randomIndex = \<lfloor>random_index inp * real (length employeesWithEmbedding)\<rfloor>
      in if randomIndex < 0 \<or> int (length employeesWithEmbedding) \<le> randomIndex then None
         else Some (employeesWithEmbedding ! nat randomIndex))"

text \<open>
  The state of an employee's day as \<open>recognize\<close> distinguishes it: no row, a row without
  check-out, a row with check-out.
\<close>

datatype day_state = NoRecord | CheckedIn | Complete

definition dayState :: "db \<Rightarrow> string \<Rightarrow> string \<Rightarrow> day_state" where
  "dayState d eid dt =
     (case getAttendanceByEmployee d eid dt of
        None \<Rightarrow> NoRecord
      | Some r \<Rightarrow> if truthy (checkOut r) then Complete else CheckedIn)"

text \<open>At most one attendance row per employee and date.\<close>

definition one_per_day :: "attendance list \<Rightarrow> bool" where
  "one_per_day rows = distinct (map (\<lambda>r. (employeeId r, date r)) rows)"

text \<open>
  \<open>toTimeString()\<close> renders the local time as hours, minutes and seconds of two digits
  each, followed by the zone: \<open>09:00:30 GMT+0100 (Central European Standard Time)\<close>.
  Its first five characters, which \<open>recognize\<close> takes as \<open>currentTime\<close>, are the hour
  and the minute. Hours are below 24, minutes and seconds below 60, so every digit is
  below 10.
\<close>

definition digit_char :: "nat \<Rightarrow> char" where
  "digit_char n = ''0123456789'' ! n"

definition two_digits :: "nat \<Rightarrow> string" where
  "two_digits n = [digit_char (n div 10), digit_char (n mod 10)]"

definition toTimeString :: "nat \<Rightarrow> nat \<Rightarrow> nat \<Rightarrow> string \<Rightarrow> string" where
  "toTimeString h m s zone =
     two_digits h @ '':'' @ two_digits m @ '':'' @ two_digits s @ '' '' @ zone"

definition hhmm :: "nat \<Rightarrow> nat \<Rightarrow> string" where
  "hhmm h m = [digit_char (h div 10), digit_char (h mod 10), CHR '':'',
               digit_char (m div 10), digit_char (m mod 10)]"

text \<open>The number of employees without any attendance row for a date.\<close>

definition employees_without_row :: "db \<Rightarrow> string \<Rightarrow> nat" where
  "employees_without_row d dt =
     length (filter (\<lambda>e. \<not> list_ex (\<lambda>r. employeeId r = e_id e \<and> date r = dt) (attendanceRecords d))
                    (employees d))"

text \<open>
  A JSON text that denotes an array opens, after white space, with a bracket. A runtime
  whose parser returns arrays only for such texts is called bracketed here.
\<close>

definition json_ws :: "char \<Rightarrow> bool" where
  "json_ws c = (c = CHR '' '' \<or> c = CHR 0x09 \<or> c = CHR 0x0A \<or> c = CHR 0x0D)"

definition opens_with_bracket :: "string \<Rightarrow> bool" where
  "opens_with_bracket s = (case dropWhile json_ws s of [] \<Rightarrow> False | c # _ \<Rightarrow> c = CHR ''['')"

definition bracketed :: "runtime \<Rightarrow> bool" where
  "bracketed rt = (\<forall>s xs. JSON_parse rt s = Some (JArray xs) \<longrightarrow> opens_with_bracket s)"

text \<open>The row that \<open>recognize\<close> inserts on the first scan of an employee's day.\<close>

definition check_in_row :: "recognize_input \<Rightarrow> employee \<Rightarrow> attendance" where
  "check_in_row inp e =
     \<lparr>a_id = uuid inp, employeeId = e_id e, date = today inp,
      checkIn = Some (currentTime inp), checkOut = None,
      a_status = (if currentTime inp > ''09:00'' then ''late'' else ''present''),
      confidence = Some (85 / 100 + random_confidence inp * (14 / 100))\<rparr>"

text \<open>A stored text that the runtime's parser does not turn into an array.\<close>

definition not_json_array :: "runtime \<Rightarrow> string option \<Rightarrow> bool" where
  "not_json_array rt v =
     (case v of
        None \<Rightarrow> True
      | Some s \<Rightarrow> (case JSON_parse rt s of Some (JArray xs) \<Rightarrow> False | _ \<Rightarrow> True))"

text \<open>
  A runtime for the examples: it agrees with \<open>JSON.parse\<close> and \<open>Number\<close> on the texts and
  values the examples below use (arrays of numbers, the seeded strings, and texts that
  are no JSON at all).
\<close>

definition example_runtime :: runtime where
  "example_runtime =
     \<lparr>JSON_parse = (\<lambda>s.
         if s = ''[0]'' then Some (JArray [JNumber (Fin 0)])
         else if s = ''[1]'' then Some (JArray [JNumber (Fin 1)])
         else if s = ''[0.5]'' then Some (JArray [JNumber (Fin (1 / 2))])
         else if s = ''[-0.5]'' then Some (JArray [JNumber (Fin (- 1 / 2))])
         else if s = ''[0,0]'' then Some (JArray [JNumber (Fin 0), JNumber (Fin 0)])
         else if s = ''[0.5,0]'' then Some (JArray [JNumber (Fin (1 / 2)), JNumber (Fin 0)])
         else if s = ''[0.5,3.725290298461914e-9]''
           then Some (JArray [JNumber (Fin (1 / 2)), JNumber (Fin (1 / 2 ^ 28))])
         else if s = JSON_stringify ''sample_embedding_1'' then Some (JString ''sample_embedding_1'')
         else if s = JSON_stringify ''sample_embedding_2'' then Some (JString ''sample_embedding_2'')
         else if s = JSON_stringify ''sample_embedding_3'' then Some (JString ''sample_embedding_3'')
         else if s = JSON_stringify ''sample_embedding_5'' then Some (JString ''sample_embedding_5'')
         else None),
      Number = (\<lambda>j. case j of
                      JNumber n \<Rightarrow> n
                    | JNull \<Rightarrow> Fin 0
                    | JBool b \<Rightarrow> Fin (if b then 1 else 0)
                    | _ \<Rightarrow> NaN)\<rparr>"

text \<open>An employee row for the examples.\<close>

definition example_employee :: "string \<Rightarrow> string option \<Rightarrow> employee" where
  "example_employee ident emb =
     \<lparr>e_id = ident, firstName = ''Ana'', lastName = ''Martinez'', email = ident @ ''@empresa.com'',
      department = ''Ventas'', position = ''Ejecutiva de Ventas'', photoUrl = None,
      faceEmbedding = emb, e_status = ''active''\<rparr>"

text \<open>A request for the examples: the draws pick the first employee with an embedding.\<close>

definition example_input :: "string \<Rightarrow> string \<Rightarrow> recognize_input" where
  "example_input t ident =
     \<lparr>photo = Some ''[0]'', random_index = 0, random_confidence = 0,
      today = ''2024-01-15'', currentTime = t, uuid = ident\<rparr>"

text \<open>A database for the examples: one employee with an embedding, and the given rows.\<close>

definition example_db :: "attendance list \<Rightarrow> db" where
  "example_db rows = \<lparr>employees = [example_employee ''e1'' (Some ''[0]'')], attendanceRecords = rows\<rparr>"

text \<open>A request body for \<open>POST /api/attendance\<close>.\<close>

definition example_body :: insert_attendance where
  "example_body =
     \<lparr>i_employeeId = ''e1'', i_date = ''2024-01-15'', i_checkIn = Some ''08:40'',
      i_checkOut = None, i_status = Some ''present'', i_confidence = None\<rparr>"

text \<open>
  The seeded database on 2024-01-15, and the same database with only some of the seeded
  attendance rows (given by their positions).
\<close>

definition seeded_db :: db where
  "seeded_db = initializeDatabase [''e1'', ''e2'', ''e3'', ''e4'', ''e5'']
                 [''a1'', ''a2'', ''a3'', ''a4'', ''a5''] ''2024-01-15''"

definition seeded_rows :: "nat list \<Rightarrow> db" where
  "seeded_rows ns = seeded_db\<lparr>attendanceRecords := map (\<lambda>n. attendanceRecords seeded_db ! n) ns\<rparr>"

text \<open>
  The Euclidean distance of two vectors of reals, computed without rounding.
\<close>

definition exact_distance :: "real list \<Rightarrow> real list \<Rightarrow> real" where
  "exact_distance xs ys = sqrt (sum_list (map (\<lambda>(x, y). (x - y) * (x - y)) (zip xs ys)))"

text \<open>A real that is a double: rounding leaves it as it is.\<close>

definition is_double :: "real \<Rightarrow> bool" where
  "is_double x = (fl x = Fin x)"

text \<open>
  The loop of \<open>euclideanDistance\<close>, started with the sum \<open>acc\<close>, meets no rounding on the
  pairs \<open>ps\<close>: every difference, every square and every partial sum is a double.
\<close>

fun unrounded :: "real \<Rightarrow> (real \<times> real) list \<Rightarrow> bool" where
  "unrounded acc [] = True"
| "unrounded acc ((x, y) # ps) =
     (is_double (x - y) \<and> is_double ((x - y) * (x - y)) \<and>
      is_double (acc + (x - y) * (x - y)) \<and> unrounded (acc + (x - y) * (x - y)) ps)"

section \<open>Properties of the number comparisons\<close>

lemma js_lt_le_trans: "js_lt a b \<Longrightarrow> js_le b c \<Longrightarrow> js_le a c"
  by (cases a; cases b; cases c) auto

lemma js_lt_trans: "js_lt a b \<Longrightarrow> js_lt b c \<Longrightarrow> js_lt a c"
  by (cases a; cases b; cases c) auto

lemma js_lt_not_lt: "js_lt a b \<Longrightarrow> \<not> js_lt c b \<Longrightarrow> js_le c t \<Longrightarrow> js_lt a c"
  by (cases a; cases b; cases c; cases t) auto

lemma js_lt_irrefl: "\<not> js_lt a a"
  by (cases a) auto

lemma js_le_trans: "js_le a b \<Longrightarrow> js_le b c \<Longrightarrow> js_le a c"
  by (cases a; cases b; cases c) auto

lemma js_lt_not_le: "js_lt a b \<Longrightarrow> \<not> js_le b a"
  by (cases a; cases b) auto

lemma js_not_lt_le: "js_le a t \<Longrightarrow> b \<noteq> NaN \<Longrightarrow> \<not> js_lt b a \<Longrightarrow> js_le a b"
  by (cases a; cases b; cases t) auto

lemma js_not_le_lt: "js_le a t \<Longrightarrow> js_le b t \<Longrightarrow> \<not> js_le b a \<Longrightarrow> js_lt a b"
  by (cases a; cases b; cases t) auto

section \<open>Properties of the rounding\<close>

lemma fl_zero [simp]: "fl 0 = Fin 0"
  by (simp add: fl_def)

lemma pow2_powr: "pow2 k = 2 powr of_int k"
  by (simp add: pow2_def powr_int)

lemma floor_log2:
  assumes "pow2 k \<le> x" and "x < pow2 (k + 1)"
  shows "\<lfloor>log 2 x\<rfloor> = k"
proof -
  have a: "2 powr of_int k \<le> x" "x < 2 powr (of_int k + 1)"
    using assms by (simp_all add: pow2_powr)
  have pos: "0 < x" using a(1) by (smt (verit) powr_gt_zero)
  have "of_int k \<le> log 2 x" using a(1) pos by (simp add: le_log_iff)
  moreover have "log 2 x < of_int k + 1" using a(2) pos by (simp add: log_less_iff)
  ultimately show ?thesis by (intro floor_unique) auto
qed

lemma fl_eval:
  assumes "x \<noteq> 0" and "pow2 k \<le> \<bar>x\<bar>" and "\<bar>x\<bar> < pow2 (k + 1)"
  shows "fl x =
     (let ulp = pow2 (max k (- 1022) - 52);
          y = of_int (round_even (x / ulp)) * ulp
      in if 2 ^ 1024 \<le> y then PosInf
         else if y \<le> - (2 ^ 1024) then NegInf
         else Fin y)"
  using assms(1) floor_log2 [OF assms(2,3)] by (simp add: fl_def Let_def)

text \<open>Zero, the sign and the distance of at most half a unit in the last place.\<close>

lemma pow2_pos: "0 < pow2 k"
  by (simp add: pow2_def)

lemma round_even_nonneg: "0 \<le> q \<Longrightarrow> 0 \<le> round_even q"
  by (auto simp: round_even_def Let_def)

lemma round_even_near: "\<bar>of_int (round_even q) - q\<bar> \<le> 1 / 2"
  unfolding round_even_def Let_def by (auto simp: abs_if) linarith+

lemma fl_nonneg:
  assumes "0 \<le> x"
  shows "fl x \<noteq> NegInf \<and> fl x \<noteq> NaN \<and> (\<forall>y. fl x = Fin y \<longrightarrow> 0 \<le> y)"
proof (cases "x = 0")
  case True
  then show ?thesis by simp
next
  case False
  define ulp where "ulp = pow2 (max \<lfloor>log 2 \<bar>x\<bar>\<rfloor> (- 1022) - 52)"
  have u: "0 < ulp" by (simp add: ulp_def pow2_pos)
  with assms have "0 \<le> x / ulp" by simp
  then have "0 \<le> round_even (x / ulp)" by (rule round_even_nonneg)
  with u have y: "0 \<le> of_int (round_even (x / ulp)) * ulp" by simp
  show ?thesis
    using False y unfolding fl_def Let_def ulp_def [symmetric]
    by (auto split: if_splits)
qed

lemma pow2_half: "pow2 (k - 1) = pow2 k / 2"
  by (simp add: pow2_powr powr_diff)

lemma fl_near:
  assumes "fl x = Fin y"
  shows "\<bar>y - x\<bar> \<le> pow2 (max \<lfloor>log 2 \<bar>x\<bar>\<rfloor> (- 1022) - 53)"
proof (cases "x = 0")
  case True
  with assms show ?thesis by (simp add: less_imp_le [OF pow2_pos])
next
  case False
  define e where "e = max \<lfloor>log 2 \<bar>x\<bar>\<rfloor> (- 1022)"
  define ulp where "ulp = pow2 (e - 52)"
  have u: "0 < ulp" by (simp add: ulp_def pow2_pos)
  from assms False have y: "y = of_int (round_even (x / ulp)) * ulp"
    unfolding fl_def Let_def e_def [symmetric] ulp_def [symmetric]
    by (auto split: if_splits)
  have "y - x = (of_int (round_even (x / ulp)) - x / ulp) * ulp"
    using u by (simp add: y algebra_simps)
  then have "\<bar>y - x\<bar> = \<bar>of_int (round_even (x / ulp)) - x / ulp\<bar> * ulp"
    using u by (simp add: abs_mult)
  also have "\<dots> \<le> (1 / 2) * ulp"
    using round_even_near [of "x / ulp"] u by (intro mult_right_mono) auto
  also have "\<dots> = pow2 (e - 53)"
    using pow2_half [of "e - 52"] by (simp add: ulp_def)
  finally show ?thesis by (simp add: e_def)
qed

text \<open>The doubles that the examples meet, and the threshold.\<close>

lemma fl_one: "fl 1 = Fin 1"
  using fl_eval [of 1 0] by (simp add: round_even_def pow2_def Let_def)

lemma fl_minus_one: "fl (- 1) = Fin (- 1)"
  using fl_eval [of "- 1" 0] by (simp add: round_even_def pow2_def Let_def)

lemma fl_half: "fl (1 / 2) = Fin (1 / 2)"
  using fl_eval [of "1 / 2" "- 1"] by (simp add: round_even_def pow2_def Let_def)

lemma fl_minus_half: "fl (- (1 / 2)) = Fin (- (1 / 2))"
  using fl_eval [of "- (1 / 2)" "- 1"] by (simp add: round_even_def pow2_def Let_def)

lemma fl_quarter: "fl (1 / 4) = Fin (1 / 4)"
  using fl_eval [of "1 / 4" "- 2"] by (simp add: round_even_def pow2_def Let_def)

lemma fl_threshold: "fl (6 / 10) = Fin (5404319552844595 / 9007199254740992)"
  using fl_eval [of "6 / 10" "- 1"] by (simp add: round_even_def pow2_def Let_def)

lemma THRESHOLD_value: "THRESHOLD = Fin (5404319552844595 / 9007199254740992)"
  unfolding THRESHOLD_def by (rule fl_threshold)

lemma fl_tiny: "fl (1 / 268435456) = Fin (1 / 268435456)"
  using fl_eval [of "1 / 268435456" "- 28"] by (simp add: round_even_def pow2_def Let_def)

lemma fl_minus_tiny: "fl (- (1 / 268435456)) = Fin (- (1 / 268435456))"
  using fl_eval [of "- (1 / 268435456)" "- 28"] by (simp add: round_even_def pow2_def Let_def)

lemma fl_tiny_square: "fl (1 / 72057594037927936) = Fin (1 / 72057594037927936)"
  using fl_eval [of "1 / 72057594037927936" "- 56"] by (simp add: round_even_def pow2_def Let_def)

text \<open>A quarter plus \<open>2^-56\<close> is less than half a unit in the last place above a quarter.\<close>

lemma fl_absorb: "fl (18014398509481985 / 72057594037927936) = Fin (1 / 4)"
  using fl_eval [of "18014398509481985 / 72057594037927936" "- 2"]
  by (simp add: round_even_def pow2_def Let_def)

lemmas fl_values = fl_one fl_minus_one fl_half fl_minus_half fl_quarter fl_tiny fl_minus_tiny
          fl_tiny_square fl_absorb

section \<open>Properties of the distance\<close>

text \<open>
  For arrays of equal length every read of the loop is inside both arrays, and the loop is
  a fold over the paired elements.
\<close>

lemma euclideanDistance_loop_fold:
  "length a = length b \<Longrightarrow>
   euclideanDistance_loop a b i s =
     fold (\<lambda>(x, y) acc. js_add acc (js_mul (js_sub x y) (js_sub x y))) (drop i (zip a b)) s"
proof (induction a b i s rule: euclideanDistance_loop.induct)
  case (1 a b i s)
  show ?case
  proof (cases "i < length a")
    case True
    then have d: "drop i (zip a b) = (a ! i, b ! i) # drop (Suc i) (zip a b)"
      using "1.prems" by (simp add: Cons_nth_drop_Suc [symmetric])
    show ?thesis
      using True "1.prems" "1.IH" [OF True refl "1.prems"]
      by (subst euclideanDistance_loop.simps) (simp add: d js_index_def Let_def)
  next
    case False
    then show ?thesis by (subst euclideanDistance_loop.simps) simp
  qed
qed

lemma euclideanDistance_fold:
  "euclideanDistance a b =
     (if length a \<noteq> length b then PosInf
      else js_sqrt (fold (\<lambda>(x, y) acc. js_add acc (js_mul (js_sub x y) (js_sub x y))) (zip a b) (Fin 0)))"
  by (simp add: euclideanDistance_def euclideanDistance_loop_fold)

lemma fold_same_zero:
  "\<forall>x\<in>set xs. \<exists>r. x = Fin r \<Longrightarrow>
   fold (\<lambda>(x, y) acc. js_add acc (js_mul (js_sub x y) (js_sub x y))) (zip xs xs) (Fin 0) = Fin 0"
  by (induction xs) auto

lemma euclideanDistance_same:
  "\<forall>x\<in>set xs. \<exists>r. x = Fin r \<Longrightarrow> euclideanDistance xs xs = Fin 0"
  by (simp add: euclideanDistance_fold fold_same_zero)

text \<open>
  On vectors of finite numbers of equal length, when no step of the loop rounds, the sum
  is the exact sum of the squared differences and the distance is the Euclidean distance
  rounded once, by the square root.
\<close>

lemma fold_unrounded:
  "unrounded acc ps \<Longrightarrow>
   fold (\<lambda>(x, y) acc. js_add acc (js_mul (js_sub x y) (js_sub x y)))
     (map (\<lambda>(x, y). (Fin x, Fin y)) ps) (Fin acc)
   = Fin (acc + sum_list (map (\<lambda>(x, y). (x - y) * (x - y)) ps))"
  by (induction ps arbitrary: acc) (auto simp: is_double_def algebra_simps)

lemma sum_squares_nonneg:
  "0 \<le> sum_list (map (\<lambda>(x, y). (x - y) * (x - y)) (ps :: (real \<times> real) list))"
  by (rule sum_list_nonneg) auto

lemma euclideanDistance_unrounded:
  assumes "length xs = length ys" and "unrounded 0 (zip xs ys)"
  shows "euclideanDistance (map Fin xs) (map Fin ys) = fl (exact_distance xs ys)"
proof -
  have z: "zip (map Fin xs) (map Fin ys) = map (\<lambda>(x, y). (Fin x, Fin y)) (zip xs ys)"
    by (simp add: zip_map_map)
  show ?thesis
    using assms(1) fold_unrounded [OF assms(2)] sum_squares_nonneg [of "zip xs ys"]
    by (simp add: euclideanDistance_fold z exact_distance_def)
qed

section \<open>Properties of the embedding lookup\<close>

text \<open>
  What the loop returns is either the initial \<open>best\<close>, which no candidate beat, or a
  candidate that beat the initial \<open>best\<close>, every candidate before it that is within the
  threshold, and that no later candidate beats.
\<close>

lemma best_loop_cases:
  "best_loop rt t cs best = Some (e, d) \<Longrightarrow>
     (best = Some (e, d) \<and>
      (\<forall>c\<in>set cs. \<forall>emb. parseEmbedding rt (faceEmbedding c) = Some emb \<longrightarrow>
          \<not> (js_le (euclideanDistance t emb) THRESHOLD \<and> js_lt (euclideanDistance t emb) d)))
   \<or> (\<exists>pre post emb. cs = pre @ e # post \<and>
         parseEmbedding rt (faceEmbedding e) = Some emb \<and> d = euclideanDistance t emb \<and>
         js_le d THRESHOLD \<and>
         (\<forall>b bd. best = Some (b, bd) \<longrightarrow> js_lt d bd) \<and>
         (\<forall>c\<in>set pre. \<forall>cemb. parseEmbedding rt (faceEmbedding c) = Some cemb \<longrightarrow>
             js_le (euclideanDistance t cemb) THRESHOLD \<longrightarrow> js_lt d (euclideanDistance t cemb)) \<and>
         (\<forall>c\<in>set post. \<forall>cemb. parseEmbedding rt (faceEmbedding c) = Some cemb \<longrightarrow>
             \<not> js_lt (euclideanDistance t cemb) d))"
proof (induction cs arbitrary: best)
  case Nil
  then show ?case by simp
next
  case (Cons c rest)
  show ?case
  proof (cases "parseEmbedding rt (faceEmbedding c)")
    case None
    with Cons.prems have run: "best_loop rt t rest best = Some (e, d)" by simp
    from Cons.IH [OF run] show ?thesis
    proof (elim disjE conjE exE)
      assume "best = Some (e, d)"
        and "\<forall>c\<in>set rest. \<forall>emb. parseEmbedding rt (faceEmbedding c) = Some emb \<longrightarrow>
          \<not> (js_le (euclideanDistance t emb) THRESHOLD \<and> js_lt (euclideanDistance t emb) d)"
      with None show ?thesis by auto
    next
      fix pre post emb
      assume h: "rest = pre @ e # post" "parseEmbedding rt (faceEmbedding e) = Some emb"
        "d = euclideanDistance t emb" "js_le d THRESHOLD"
        "\<forall>b bd. best = Some (b, bd) \<longrightarrow> js_lt d bd"
        "\<forall>c\<in>set pre. \<forall>cemb. parseEmbedding rt (faceEmbedding c) = Some cemb \<longrightarrow>
             js_le (euclideanDistance t cemb) THRESHOLD \<longrightarrow> js_lt d (euclideanDistance t cemb)"
        "\<forall>c\<in>set post. \<forall>cemb. parseEmbedding rt (faceEmbedding c) = Some cemb \<longrightarrow>
             \<not> js_lt (euclideanDistance t cemb) d"
      have "c # rest = (c # pre) @ e # post" using h(1) by simp
      moreover have "\<forall>c'\<in>set (c # pre). \<forall>cemb. parseEmbedding rt (faceEmbedding c') = Some cemb \<longrightarrow>
             js_le (euclideanDistance t cemb) THRESHOLD \<longrightarrow> js_lt d (euclideanDistance t cemb)"
        using h(6) None by auto
      ultimately show ?thesis using h(2-5,7) by blast
    qed
  next
    case (Some cemb)
    let ?dc = "euclideanDistance t cemb"
    show ?thesis
    proof (cases "js_le ?dc THRESHOLD \<and> (best = None \<or> js_lt ?dc (snd (the best)))")
      case True
      with Some Cons.prems have run: "best_loop rt t rest (Some (c, ?dc)) = Some (e, d)"
        by (simp add: Let_def)
      from Cons.IH [OF run] show ?thesis
      proof (elim disjE conjE exE)
        assume eq: "Some (c, ?dc) = Some (e, d)"
          and nb: "\<forall>c\<in>set rest. \<forall>emb. parseEmbedding rt (faceEmbedding c) = Some emb \<longrightarrow>
          \<not> (js_le (euclideanDistance t emb) THRESHOLD \<and> js_lt (euclideanDistance t emb) d)"
        from eq have ce: "c = e" "d = ?dc" by auto
        have "c # rest = [] @ e # rest" using ce by simp
        moreover have "\<forall>c\<in>set rest. \<forall>emb. parseEmbedding rt (faceEmbedding c) = Some emb \<longrightarrow>
             \<not> js_lt (euclideanDistance t emb) d"
          using nb True ce js_lt_le_trans by blast
        moreover have "\<forall>b bd. best = Some (b, bd) \<longrightarrow> js_lt d bd"
          using True ce by auto
        ultimately show ?thesis using Some True ce by (intro disjI2 exI [of _ "[]"] exI [of _ rest] exI [of _ cemb]) auto
      next
        fix pre post emb
        assume h: "rest = pre @ e # post" "parseEmbedding rt (faceEmbedding e) = Some emb"
          "d = euclideanDistance t emb" "js_le d THRESHOLD"
          "\<forall>b bd. Some (c, ?dc) = Some (b, bd) \<longrightarrow> js_lt d bd"
          "\<forall>c\<in>set pre. \<forall>cemb. parseEmbedding rt (faceEmbedding c) = Some cemb \<longrightarrow>
             js_le (euclideanDistance t cemb) THRESHOLD \<longrightarrow> js_lt d (euclideanDistance t cemb)"
          "\<forall>c\<in>set post. \<forall>cemb. parseEmbedding rt (faceEmbedding c) = Some cemb \<longrightarrow>
             \<not> js_lt (euclideanDistance t cemb) d"
        from h(5) have lt: "js_lt d ?dc" by simp
        have "c # rest = (c # pre) @ e # post" using h(1) by simp
        moreover have "\<forall>c'\<in>set (c # pre). \<forall>cemb'. parseEmbedding rt (faceEmbedding c') = Some cemb' \<longrightarrow>
             js_le (euclideanDistance t cemb') THRESHOLD \<longrightarrow> js_lt d (euclideanDistance t cemb')"
          using h(6) Some lt by auto
        moreover have "\<forall>b bd. best = Some (b, bd) \<longrightarrow> js_lt d bd"
          using True lt js_lt_trans by fastforce
        ultimately show ?thesis using h(2-4,7) by blast
      qed
    next
      case False
      with Some Cons.prems have run: "best_loop rt t rest best = Some (e, d)"
        by (simp add: Let_def)
      from Cons.IH [OF run] show ?thesis
      proof (elim disjE conjE exE)
        assume eq: "best = Some (e, d)"
          and nb: "\<forall>c\<in>set rest. \<forall>emb. parseEmbedding rt (faceEmbedding c) = Some emb \<longrightarrow>
          \<not> (js_le (euclideanDistance t emb) THRESHOLD \<and> js_lt (euclideanDistance t emb) d)"
        have "\<not> (js_le ?dc THRESHOLD \<and> js_lt ?dc d)" using False eq by auto
        with nb Some eq show ?thesis by auto
      next
        fix pre post emb
        assume h: "rest = pre @ e # post" "parseEmbedding rt (faceEmbedding e) = Some emb"
          "d = euclideanDistance t emb" "js_le d THRESHOLD"
          "\<forall>b bd. best = Some (b, bd) \<longrightarrow> js_lt d bd"
          "\<forall>c\<in>set pre. \<forall>cemb. parseEmbedding rt (faceEmbedding c) = Some cemb \<longrightarrow>
             js_le (euclideanDistance t cemb) THRESHOLD \<longrightarrow> js_lt d (euclideanDistance t cemb)"
          "\<forall>c\<in>set post. \<forall>cemb. parseEmbedding rt (faceEmbedding c) = Some cemb \<longrightarrow>
             \<not> js_lt (euclideanDistance t cemb) d"
        have c_ok: "js_le ?dc THRESHOLD \<longrightarrow> js_lt d ?dc"
        proof
          assume le: "js_le ?dc THRESHOLD"
          with False obtain b bd where b: "best = Some (b, bd)" "\<not> js_lt ?dc bd"
            by (cases best) auto
          from h(5) b(1) have "js_lt d bd" by simp
          with b(2) le show "js_lt d ?dc" using js_lt_not_lt by blast
        qed
        have "c # rest = (c # pre) @ e # post" using h(1) by simp
        moreover have "\<forall>c'\<in>set (c # pre). \<forall>cemb'. parseEmbedding rt (faceEmbedding c') = Some cemb' \<longrightarrow>
             js_le (euclideanDistance t cemb') THRESHOLD \<longrightarrow> js_lt d (euclideanDistance t cemb')"
          using h(6) Some c_ok by auto
        ultimately show ?thesis using h(2-5,7) by blast
      qed
    qed
  qed
qed

lemma best_loop_from_None:
  assumes "best_loop rt t cs None = Some (e, d)"
  shows "\<exists>pre post emb. cs = pre @ e # post \<and>
         parseEmbedding rt (faceEmbedding e) = Some emb \<and> d = euclideanDistance t emb \<and>
         js_le d THRESHOLD \<and>
         (\<forall>c\<in>set pre. \<forall>cemb. parseEmbedding rt (faceEmbedding c) = Some cemb \<longrightarrow>
             \<not> js_le (euclideanDistance t cemb) d) \<and>
         (\<forall>c\<in>set post. \<forall>cemb. parseEmbedding rt (faceEmbedding c) = Some cemb \<longrightarrow>
             \<not> js_lt (euclideanDistance t cemb) d)"
proof -
  from best_loop_cases [OF assms] obtain pre post emb where
    h: "cs = pre @ e # post" "parseEmbedding rt (faceEmbedding e) = Some emb"
       "d = euclideanDistance t emb" "js_le d THRESHOLD"
       "\<forall>c\<in>set pre. \<forall>cemb. parseEmbedding rt (faceEmbedding c) = Some cemb \<longrightarrow>
             js_le (euclideanDistance t cemb) THRESHOLD \<longrightarrow> js_lt d (euclideanDistance t cemb)"
       "\<forall>c\<in>set post. \<forall>cemb. parseEmbedding rt (faceEmbedding c) = Some cemb \<longrightarrow>
             \<not> js_lt (euclideanDistance t cemb) d"
    by auto
  have "\<forall>c\<in>set pre. \<forall>cemb. parseEmbedding rt (faceEmbedding c) = Some cemb \<longrightarrow>
             \<not> js_le (euclideanDistance t cemb) d"
  proof (intro ballI allI impI notI)
    fix c cemb
    assume c: "c \<in> set pre" "parseEmbedding rt (faceEmbedding c) = Some cemb"
      and le: "js_le (euclideanDistance t cemb) d"
    from le h(4) have "js_le (euclideanDistance t cemb) THRESHOLD" by (rule js_le_trans)
    with h(5) c have "js_lt d (euclideanDistance t cemb)" by blast
    with le show False using js_lt_not_le by blast
  qed
  with h(1-4,6) show ?thesis by blast
qed

lemma best_loop_Some: "best_loop rt t cs (Some b) \<noteq> None"
  by (induction cs arbitrary: b) (auto simp: Let_def split: option.splits)

lemma best_loop_None_iff:
  "best_loop rt t cs None = None \<longleftrightarrow>
     (\<forall>c\<in>set cs. \<forall>emb. parseEmbedding rt (faceEmbedding c) = Some emb \<longrightarrow>
         \<not> js_le (euclideanDistance t emb) THRESHOLD)"
proof (induction cs)
  case Nil
  then show ?case by simp
next
  case (Cons c rest)
  show ?case
  proof (cases "parseEmbedding rt (faceEmbedding c)")
    case None
    then show ?thesis using Cons.IH by simp
  next
    case (Some emb)
    then show ?thesis using Cons.IH best_loop_Some [of rt t rest "(c, euclideanDistance t emb)"]
      by (simp add: Let_def)
  qed
qed

lemma best_loop_append:
  "best_loop rt t (xs @ ys) best = best_loop rt t ys (best_loop rt t xs best)"
  by (induction xs arbitrary: best) (auto simp: Let_def split: option.splits)

lemma best_loop_unparsed:
  "parseEmbedding rt (faceEmbedding e) = None \<Longrightarrow>
   best_loop rt t (pre @ e # post) best = best_loop rt t (pre @ post) best"
  by (simp add: best_loop_append)

lemma best_loop_keeps:
  "\<forall>c\<in>set cs. \<forall>cemb. parseEmbedding rt (faceEmbedding c) = Some cemb \<longrightarrow>
      \<not> js_lt (euclideanDistance t cemb) d \<Longrightarrow>
   best_loop rt t cs (Some (e, d)) = Some (e, d)"
  by (induction cs) (auto simp: Let_def split: option.splits)

lemma best_loop_first_min:
  assumes emb: "parseEmbedding rt (faceEmbedding e) = Some emb"
    and le: "js_le (euclideanDistance t emb) THRESHOLD"
    and pre: "\<forall>c\<in>set pre. \<forall>cemb. parseEmbedding rt (faceEmbedding c) = Some cemb \<longrightarrow>
                \<not> js_le (euclideanDistance t cemb) (euclideanDistance t emb)"
    and post: "\<forall>c\<in>set post. \<forall>cemb. parseEmbedding rt (faceEmbedding c) = Some cemb \<longrightarrow>
                \<not> js_lt (euclideanDistance t cemb) (euclideanDistance t emb)"
  shows "best_loop rt t (pre @ e # post) None = Some (e, euclideanDistance t emb)"
proof -
  let ?d = "euclideanDistance t emb"
  have accept: "best_loop rt t pre None = None \<or> js_lt ?d (snd (the (best_loop rt t pre None)))"
  proof (cases "best_loop rt t pre None")
    case None
    then show ?thesis by simp
  next
    case (Some bd)
    obtain b d' where bd: "bd = (b, d')" by (cases bd)
    from best_loop_from_None [of rt t pre b d'] Some bd obtain p q bemb where
      b: "pre = p @ b # q" "parseEmbedding rt (faceEmbedding b) = Some bemb"
         "d' = euclideanDistance t bemb" "js_le d' THRESHOLD"
      by auto
    from b(1) have "b \<in> set pre" by simp
    with pre b(2,3) have "\<not> js_le d' ?d" by blast
    with le b(4) have "js_lt ?d d'" by (rule js_not_le_lt)
    with Some bd show ?thesis by simp
  qed
  have "best_loop rt t [e] (best_loop rt t pre None) = Some (e, ?d)"
    using emb le accept by (auto simp: Let_def)
  then have "best_loop rt t (pre @ e # post) None = best_loop rt t post (Some (e, ?d))"
    using best_loop_append [of rt t pre "e # post" None] best_loop_append [of rt t "[e]" post]
    by simp
  with best_loop_keeps [OF post] show ?thesis by simp
qed

lemma parseEmbedding_not_array:
  "not_json_array rt v \<Longrightarrow> parseEmbedding rt v = None"
  by (cases v) (auto simp: not_json_array_def parseEmbedding_def split: option.splits json.splits)

lemma getEmployeeByEmbedding_parsed:
  "getEmployeeByEmbedding rt embedding candidates = Some e \<Longrightarrow>
   parseEmbedding rt (faceEmbedding e) \<noteq> None"
proof -
  assume "getEmployeeByEmbedding rt embedding candidates = Some e"
  then obtain target d where "best_loop rt target candidates None = Some (e, d)"
    by (auto simp: getEmployeeByEmbedding_def split: option.splits)
  from best_loop_from_None [OF this] show ?thesis by auto
qed

lemma bracketed_JSON_stringify:
  "bracketed rt \<Longrightarrow> not_json_array rt (Some (JSON_stringify s))"
  by (auto simp: bracketed_def not_json_array_def JSON_stringify_def opens_with_bracket_def
        json_ws_def split: option.splits json.splits)

lemma bracketed_fakeEmbedding:
  "bracketed rt \<Longrightarrow> not_json_array rt (Some (fakeEmbedding i now))"
  by (auto simp: bracketed_def not_json_array_def fakeEmbedding_def opens_with_bracket_def
        json_ws_def split: option.splits json.splits)

lemma seeded_embeddings:
  assumes "s \<in> set (employees (initializeDatabase employeeIds recordIds day))"
  shows "faceEmbedding s = None \<or> (\<exists>t. faceEmbedding s = Some (JSON_stringify t))"
proof -
  from assms obtain emp ident where
    "(emp, ident) \<in> set (zip sampleEmployees employeeIds)" "s = emp\<lparr>e_id := ident\<rparr>"
    by (auto simp: initializeDatabase_def)
  then have "emp \<in> set sampleEmployees" and "faceEmbedding s = faceEmbedding emp"
    by (auto dest: set_zip_leftD)
  then show ?thesis by (auto simp: sampleEmployees_def)
qed

lemma post_embedding_stores:
  assumes "post_embedding photo' (Some ident) now d = (Embedding_ok updated, d')"
    and "u \<in> set (employees d')" and "e_id u = ident"
  shows "faceEmbedding u = Some (fakeEmbedding ident now)"
proof -
  define f where "f = (\<lambda>e::employee. if e_id e = ident
                then e\<lparr>faceEmbedding := Some (fakeEmbedding ident now), photoUrl := Some (the photo')\<rparr>
                else e)"
  from assms(1) have "employees d' = map f (employees d)"
    unfolding f_def
    by (auto simp: post_embedding_def updateEmployee_embedding_def Let_def
          split: if_splits option.splits)
  with assms(2) have "u \<in> f ` set (employees d)" by simp
  then obtain x where x: "u = f x" by blast
  show ?thesis
  proof (cases "e_id x = ident")
    case True
    with x show ?thesis by (simp add: f_def)
  next
    case False
    with x assms(3) show ?thesis by (simp add: f_def)
  qed
qed

lemma bracketed_example: "bracketed example_runtime"
  by (auto simp: bracketed_def example_runtime_def opens_with_bracket_def json_ws_def
        split: if_splits)

text \<open>The employee returned is within the threshold and no candidate is nearer.\<close>

lemma getEmployeeByEmbedding_minimal:
  assumes "getEmployeeByEmbedding rt embedding candidates = Some e"
  shows "\<exists>target emb.
           parseEmbedding rt (Some embedding) = Some target \<and>
           parseEmbedding rt (faceEmbedding e) = Some emb \<and>
           e \<in> set candidates \<and>
           js_le (euclideanDistance target emb) THRESHOLD \<and>
           (\<forall>c\<in>set candidates. \<forall>cemb. parseEmbedding rt (faceEmbedding c) = Some cemb \<longrightarrow>
              \<not> js_lt (euclideanDistance target cemb) (euclideanDistance target emb) \<and>
              (euclideanDistance target cemb \<noteq> NaN \<longrightarrow>
                 js_le (euclideanDistance target emb) (euclideanDistance target cemb)) \<and>
              (js_lt THRESHOLD (euclideanDistance target cemb) \<longrightarrow> c \<noteq> e))"
proof -
  from assms obtain target d where
    t: "parseEmbedding rt (Some embedding) = Some target"
    and run: "best_loop rt target candidates None = Some (e, d)"
    by (auto simp: getEmployeeByEmbedding_def split: option.splits)
  from best_loop_from_None [OF run] obtain pre post emb where
    h: "candidates = pre @ e # post" "parseEmbedding rt (faceEmbedding e) = Some emb"
       "d = euclideanDistance target emb" "js_le d THRESHOLD"
       "\<forall>c\<in>set pre. \<forall>cemb. parseEmbedding rt (faceEmbedding c) = Some cemb \<longrightarrow>
             \<not> js_le (euclideanDistance target cemb) d"
       "\<forall>c\<in>set post. \<forall>cemb. parseEmbedding rt (faceEmbedding c) = Some cemb \<longrightarrow>
             \<not> js_lt (euclideanDistance target cemb) d"
    by blast
  have nolt: "\<not> js_lt (euclideanDistance target cemb) d"
    if c: "c \<in> set candidates" "parseEmbedding rt (faceEmbedding c) = Some cemb" for c cemb
  proof -
    from c(1) h(1) consider "c \<in> set pre" | "c = e" | "c \<in> set post" by auto
    then show ?thesis
    proof cases
      case 1
      with h(5) c(2) have "\<not> js_le (euclideanDistance target cemb) d" by blast
      then show ?thesis using js_lt_le_trans [of "euclideanDistance target cemb" d d]
        by (cases "euclideanDistance target cemb"; cases d) auto
    next
      case 2
      with c(2) h(2,3) show ?thesis by (simp add: js_lt_irrefl)
    next
      case 3
      with h(6) c(2) show ?thesis by blast
    qed
  qed
  have "\<not> js_lt (euclideanDistance target cemb) (euclideanDistance target emb) \<and>
        (euclideanDistance target cemb \<noteq> NaN \<longrightarrow>
           js_le (euclideanDistance target emb) (euclideanDistance target cemb)) \<and>
        (js_lt THRESHOLD (euclideanDistance target cemb) \<longrightarrow> c \<noteq> e)"
    if c: "c \<in> set candidates" "parseEmbedding rt (faceEmbedding c) = Some cemb" for c cemb
  proof (intro conjI impI)
    show "\<not> js_lt (euclideanDistance target cemb) (euclideanDistance target emb)"
      using nolt [OF c] h(3) by simp
    show "js_le (euclideanDistance target emb) (euclideanDistance target cemb)"
      if "euclideanDistance target cemb \<noteq> NaN"
      using js_not_lt_le [OF _ that] nolt [OF c] h(3,4) by blast
    show "c \<noteq> e" if far: "js_lt THRESHOLD (euclideanDistance target cemb)"
    proof
      assume "c = e"
      with c(2) h(2) have "cemb = emb" by simp
      with far h(3,4) show False using js_lt_not_le by blast
    qed
  qed
  with t h(1,2,3,4) show ?thesis by auto
qed

text \<open>A distance is never below zero.\<close>

lemma euclideanDistance_le_zero:
  "js_le (euclideanDistance a b) (Fin 0) \<Longrightarrow> euclideanDistance a b = Fin 0"
proof -
  assume le: "js_le (euclideanDistance a b) (Fin 0)"
  show ?thesis
  proof (cases "length a \<noteq> length b")
    case True
    with le show ?thesis by (simp add: euclideanDistance_def)
  next
    case False
    then have eq: "euclideanDistance a b = js_sqrt (euclideanDistance_loop a b 0 (Fin 0))"
      by (simp add: euclideanDistance_def)
    show ?thesis
    proof (cases "euclideanDistance_loop a b 0 (Fin 0)")
      case (Fin x)
      show ?thesis
      proof (cases "x < 0")
        case True
        with le eq Fin show ?thesis by simp
      next
        case False
        then have r: "euclideanDistance a b = fl (sqrt x)" using eq Fin by simp
        from False have "0 \<le> sqrt x" by simp
        from fl_nonneg [OF this] le r show ?thesis
          by (cases "fl (sqrt x)") auto
      qed
    qed (use le eq in auto)
  qed
qed

section \<open>Properties of the recognition route\<close>

text \<open>The three branches of \<open>recognize\<close> once an employee is selected.\<close>

lemma find_append_fresh:
  "\<forall>x\<in>set xs. \<not> P x \<Longrightarrow> P y \<Longrightarrow> find P (xs @ [y]) = Some y"
  by (induction xs) auto

lemma find_map_preserved:
  "(\<And>x. P (f x) = P x) \<Longrightarrow> find P (map f xs) = map_option f (find P xs)"
  by (induction xs) auto

lemma recognize_no_faces:
  "truthy (photo inp) \<Longrightarrow> filter (\<lambda>e. truthy (faceEmbedding e)) (employees d) = [] \<Longrightarrow>
   recognize inp d = (No_faces_registered, d)"
  by (simp add: recognize_def getAllEmployees_def)

lemma recognize_matched:
  assumes "truthy (photo inp)" and "matchedEmployee inp d = Some e"
  shows "recognize inp d =
     (case getAttendanceByEmployee d (e_id e) (today inp) of
        None \<Rightarrow>
          (case createAttendance d
                  \<lparr>i_employeeId = e_id e, i_date = today inp,
                   i_checkIn = Some (currentTime inp), i_checkOut = None,
                   i_status = Some (if currentTime inp > ''09:00'' then ''late'' else ''present''),
                   i_confidence = Some (85 / 100 + random_confidence inp * (14 / 100))\<rparr>
                  (uuid inp) of
             Inl err \<Rightarrow> (Recognize_500, d)
           | Inr (attendance, d') \<Rightarrow>
               (Recognized e attendance check_in (85 / 100 + random_confidence inp * (14 / 100)), d'))
      | Some existingAttendance \<Rightarrow>
          (if \<not> truthy (checkOut existingAttendance)
           then (let (attendance, d') =
                       updateAttendance d (a_id existingAttendance)
                         \<lparr>u_employeeId = None, u_date = None, u_checkIn = None,
                          u_checkOut = Some (Some (currentTime inp)),
                          u_status = None, u_confidence = None\<rparr>
                 in (Recognized e attendance check_out (85 / 100 + random_confidence inp * (14 / 100)), d'))
           else (Already_in_and_out e, d)))"
proof -
  let ?ews = "filter (\<lambda>e. truthy (faceEmbedding e)) (getAllEmployees d)"
  let ?idx = "\<lfloor>random_index inp * real (length ?ews)\<rfloor>"
  from assms(2) have r: "\<not> (?idx < 0 \<or> int (length ?ews) \<le> ?idx)" and e: "e = ?ews ! nat ?idx"
    by (auto simp: matchedEmployee_def Let_def split: if_splits)
  from r have ne: "length ?ews \<noteq> 0" by auto
  show ?thesis
    unfolding recognize_def Let_def using assms(1) r ne e
    by (simp only: if_False if_True simp_thms)
qed

lemma recognize_check_in:
  assumes "truthy (photo inp)" and "matchedEmployee inp d = Some e"
    and "getAttendanceByEmployee d (e_id e) (today inp) = None"
    and "uuid inp \<notin> set (map a_id (attendanceRecords d))"
  shows "recognize inp d =
     (Recognized e (Some (check_in_row inp e)) check_in
        (85 / 100 + random_confidence inp * (14 / 100)),
      d\<lparr>attendanceRecords := attendanceRecords d @ [check_in_row inp e]\<rparr>)"
proof -
  have "find (\<lambda>r. a_id r = uuid inp) (attendanceRecords d @ [check_in_row inp e])
          = Some (check_in_row inp e)"
  proof (rule find_append_fresh)
    show "\<forall>x\<in>set (attendanceRecords d). \<not> a_id x = uuid inp"
      using assms(4) by (metis image_eqI set_map)
    show "a_id (check_in_row inp e) = uuid inp" by (simp add: check_in_row_def)
  qed
  then show ?thesis
    using assms
    by (simp add: recognize_matched createAttendance_def new_row_def check_in_row_def Let_def)
qed

lemma apply_updates_checkOut:
  "apply_updates \<lparr>u_employeeId = None, u_date = None, u_checkIn = None,
                  u_checkOut = Some (Some t), u_status = None, u_confidence = None\<rparr> r
   = r\<lparr>checkOut := Some t\<rparr>"
  by (simp add: apply_updates_def)

lemma recognize_check_out:
  assumes "truthy (photo inp)" and "matchedEmployee inp d = Some e"
    and "getAttendanceByEmployee d (e_id e) (today inp) = Some ex"
    and "\<not> truthy (checkOut ex)"
  shows "recognize inp d =
     (Recognized e
        (find (\<lambda>r. a_id r = a_id ex)
           (map (\<lambda>r. if a_id r = a_id ex then r\<lparr>checkOut := Some (currentTime inp)\<rparr> else r)
              (attendanceRecords d)))
        check_out (85 / 100 + random_confidence inp * (14 / 100)),
      d\<lparr>attendanceRecords :=
           map (\<lambda>r. if a_id r = a_id ex then r\<lparr>checkOut := Some (currentTime inp)\<rparr> else r)
             (attendanceRecords d)\<rparr>)"
  using assms
  by (simp add: recognize_matched updateAttendance_def apply_updates_checkOut Let_def cong: if_cong)

lemma recognize_complete:
  assumes "truthy (photo inp)" and "matchedEmployee inp d = Some e"
    and "getAttendanceByEmployee d (e_id e) (today inp) = Some ex"
    and "truthy (checkOut ex)"
  shows "recognize inp d = (Already_in_and_out e, d)"
  using assms by (simp add: recognize_matched)

text \<open>The confidence that \<open>recognize\<close> reports comes from its second random draw.\<close>

lemma recognize_confidence:
  assumes "recognize inp d = (Recognized e att ty c, d')"
  shows "c = 85 / 100 + random_confidence inp * (14 / 100)"
proof (cases "truthy (photo inp) \<and> matchedEmployee inp d \<noteq> None")
  case False
  then have "fst (recognize inp d) \<in> {Recognize_400, No_faces_registered, Recognize_500}"
    by (auto simp: recognize_def matchedEmployee_def getAllEmployees_def Let_def)
  with assms show ?thesis by auto
next
  case True
  then obtain m where p: "truthy (photo inp)" and m: "matchedEmployee inp d = Some m" by auto
  from assms show ?thesis
    unfolding recognize_matched [OF p m]
    by (auto simp: Let_def split: option.splits sum.splits prod.splits if_splits)
qed

section \<open>The clock string and the cutoff\<close>

lemma of_char_digit_char: "a < 10 \<Longrightarrow> of_char (digit_char a) = (48 + a :: nat)"
proof -
  assume "a < 10"
  then have "a \<in> {0, 1, 2, 3, 4, 5, 6, 7, 8, 9}" by auto
  then show ?thesis by (auto simp: digit_char_def)
qed

lemma digit_char_less:
  "a < 10 \<Longrightarrow> b < 10 \<Longrightarrow> (digit_char a < digit_char b) = (a < b)"
  by (simp add: less_char_def of_char_digit_char)

lemma digit_char_eq:
  "a < 10 \<Longrightarrow> b < 10 \<Longrightarrow> (digit_char a = digit_char b) = (a = b)"
  using of_char_digit_char [of a] of_char_digit_char [of b]
  by (metis add_left_cancel)

lemma slice_toTimeString: "take 5 (toTimeString h m s zone) = hhmm h m"
  by (simp add: toTimeString_def two_digits_def hhmm_def)

lemma cutoff_hhmm: "''09:00'' = hhmm 9 0"
  by (simp add: hhmm_def digit_char_def)

lemma hhmm_less:
  assumes "h div 10 < 10" "h mod 10 < 10" "m div 10 < 10" "m mod 10 < 10"
  shows "(hhmm 9 0 < hhmm h m) =
        (0 < h div 10 \<or> 0 = h div 10 \<and> (9 < h mod 10 \<or> 9 = h mod 10 \<and>
           (0 < m div 10 \<or> 0 = m div 10 \<and> 0 < m mod 10)))"
proof -
  have z: "(0::nat) < 10" "(9::nat) < 10" by simp_all
  have n: "hhmm 9 0 = [digit_char 0, digit_char 9, CHR '':'', digit_char 0, digit_char 0]"
    by (simp add: hhmm_def)
  have "(hhmm 9 0 < hhmm h m) =
        (digit_char 0 < digit_char (h div 10) \<or> digit_char 0 = digit_char (h div 10) \<and>
          (digit_char 9 < digit_char (h mod 10) \<or> digit_char 9 = digit_char (h mod 10) \<and>
            (digit_char 0 < digit_char (m div 10) \<or> digit_char 0 = digit_char (m div 10) \<and>
               digit_char 0 < digit_char (m mod 10))))"
    unfolding n unfolding hhmm_def by (simp only: Cons_less_Cons) simp
  then show ?thesis
    by (simp only: digit_char_less [OF z(1) assms(1)] digit_char_eq [OF z(1) assms(1)]
         digit_char_less [OF z(2) assms(2)] digit_char_eq [OF z(2) assms(2)]
         digit_char_less [OF z(1) assms(3)] digit_char_eq [OF z(1) assms(3)]
         digit_char_less [OF z(1) assms(4)])
qed


lemma hhmm_late:
  assumes "h < 24" and "m < 60"
  shows "(hhmm h m > ''09:00'') = (9 * 60 < h * 60 + m)"
proof -
  have b: "h div 10 < 10" "h mod 10 < 10" "m div 10 < 10" "m mod 10 < 10"
    using assms by auto
  have h1: "(0 < h div 10) = (10 \<le> h)" by (simp add: div_greater_zero_iff)
  have h2: "\<not> 9 < h mod 10" using b(2) by simp
  have h3: "(0 = h div 10 \<and> 9 = h mod 10) = (h = 9)" by auto
  have m1: "(0 < m div 10 \<or> 0 = m div 10 \<and> 0 < m mod 10) = (0 < m)" by auto
  have "(0 < h div 10 \<or> 0 = h div 10 \<and> (9 < h mod 10 \<or> 9 = h mod 10 \<and>
           (0 < m div 10 \<or> 0 = m div 10 \<and> 0 < m mod 10))) = (10 \<le> h \<or> h = 9 \<and> 0 < m)"
    using h1 h2 h3 m1 by blast
  also have "\<dots> = (9 * 60 < h * 60 + m)"
    using assms by auto
  finally show ?thesis using hhmm_less [OF b] by (simp add: cutoff_hhmm)
qed

section \<open>The claims about the embedding lookup\<close>

text \<open>
  C9: for two vectors of unequal length \<open>euclideanDistance\<close> returns positive infinity,
  before any element is read; the value is a number, not an exception. Infinity is below
  no finite threshold, and an employee whose template has another length than the probe
  is never returned by \<open>getEmployeeByEmbedding\<close>.
\<close>

theorem euclideanDistance_length_mismatch:
  assumes "length a \<noteq> length b"
  shows "euclideanDistance a b = PosInf \<and>
         (\<forall>t. \<not> js_le (euclideanDistance a b) (Fin t)) \<and>
         (parseEmbedding rt (Some embedding) = Some a \<longrightarrow>
          parseEmbedding rt (faceEmbedding emp) = Some b \<longrightarrow>
          getEmployeeByEmbedding rt embedding candidates \<noteq> Some emp)"
proof -
  have inf: "euclideanDistance a b = PosInf"
    using assms by (simp add: euclideanDistance_def)
  have "getEmployeeByEmbedding rt embedding candidates \<noteq> Some emp"
    if pa: "parseEmbedding rt (Some embedding) = Some a"
      and pb: "parseEmbedding rt (faceEmbedding emp) = Some b"
  proof
    assume "getEmployeeByEmbedding rt embedding candidates = Some emp"
    with pa obtain d where "best_loop rt a candidates None = Some (emp, d)"
      by (auto simp: getEmployeeByEmbedding_def)
    from best_loop_from_None [OF this] pb have "js_le (euclideanDistance a b) THRESHOLD"
      by auto
    with inf show False by (simp add: THRESHOLD_value)
  qed
  with inf show ?thesis by simp
qed

theorem euclideanDistance_length_mismatch_witness:
  "length [Fin 0] \<noteq> length [Fin 0, Fin 0] \<and>
   euclideanDistance [Fin 0] [Fin 0, Fin 0] = PosInf \<and>
   \<not> js_le (euclideanDistance [Fin 0] [Fin 0, Fin 0]) (Fin 1) \<and>
   parseEmbedding example_runtime (Some ''[0]'') = Some [Fin 0] \<and>
   parseEmbedding example_runtime (faceEmbedding (example_employee ''e1'' (Some ''[0,0]'')))
     = Some [Fin 0, Fin 0] \<and>
   getEmployeeByEmbedding example_runtime ''[0]'' [example_employee ''e1'' (Some ''[0,0]'')]
     \<noteq> Some (example_employee ''e1'' (Some ''[0,0]''))"
proof -
  have h: "length [Fin 0] \<noteq> length [Fin 0, Fin 0]" by simp
  have p1: "parseEmbedding example_runtime (Some ''[0]'') = Some [Fin 0]"
    by (simp add: parseEmbedding_def example_runtime_def)
  have p2: "parseEmbedding example_runtime (faceEmbedding (example_employee ''e1'' (Some ''[0,0]'')))
              = Some [Fin 0, Fin 0]"
    by (simp add: parseEmbedding_def example_runtime_def example_employee_def)
  from euclideanDistance_length_mismatch
         [OF h, of example_runtime "''[0]''" "example_employee ''e1'' (Some ''[0,0]'')"
            "[example_employee ''e1'' (Some ''[0,0]'')]"]
  show ?thesis using h p1 p2 by blast
qed

lemmas ex_simps = getEmployeeByEmbedding_def parseEmbedding_def example_runtime_def
          example_employee_def euclideanDistance_fold THRESHOLD_value JSON_stringify_def
          real_sqrt_divide fl_values

text \<open>
  C1 (as stated): the employee returned has a template at minimal Euclidean distance from
  the probe among the templates of matching length. The distances the lookup compares
  are computed in doubles, and two templates whose Euclidean distances differ by less
  than the rounding get the same computed distance: the probe \<open>[0,0]\<close> is at Euclidean
  distance \<open>sqrt (1/4 + 2^-56)\<close> from the first template \<open>[0.5, 2^-28]\<close> and at the strictly
  smaller distance \<open>1/2\<close> from the second template \<open>[0.5, 0]\<close>; both computed distances are
  \<open>0.5\<close>, and the lookup returns the first employee.
\<close>

theorem rounded_distance_counterexample:
  "parseEmbedding example_runtime (Some ''[0,0]'') = Some [Fin 0, Fin 0] \<and>
   parseEmbedding example_runtime
     (faceEmbedding (example_employee ''e1'' (Some ''[0.5,3.725290298461914e-9]'')))
     = Some [Fin (1 / 2), Fin (1 / 2 ^ 28)] \<and>
   parseEmbedding example_runtime (faceEmbedding (example_employee ''e2'' (Some ''[0.5,0]'')))
     = Some [Fin (1 / 2), Fin 0] \<and>
   exact_distance [0, 0] [1 / 2, 0] < exact_distance [0, 0] [1 / 2, 1 / 2 ^ 28] \<and>
   euclideanDistance [Fin 0, Fin 0] [Fin (1 / 2), Fin (1 / 2 ^ 28)] = Fin (1 / 2) \<and>
   euclideanDistance [Fin 0, Fin 0] [Fin (1 / 2), Fin 0] = Fin (1 / 2) \<and>
   getEmployeeByEmbedding example_runtime ''[0,0]''
     [example_employee ''e1'' (Some ''[0.5,3.725290298461914e-9]''),
      example_employee ''e2'' (Some ''[0.5,0]'')]
     = Some (example_employee ''e1'' (Some ''[0.5,3.725290298461914e-9]''))"
proof -
  have "sqrt (1 / 4) < sqrt (1 / 4 + 1 / 2 ^ 56)"
    by (rule real_sqrt_less_mono) simp
  then have "exact_distance [0, 0] [1 / 2, 0] < exact_distance [0, 0] [1 / 2, 1 / 2 ^ 28]"
    by (simp add: exact_distance_def)
  then show ?thesis
    by (simp add: ex_simps)
qed

text \<open>
  C1 (amended): when \<open>getEmployeeByEmbedding\<close> returns an employee, the probe and the
  employee's template both parse, the employee is one of the candidates, and the distance
  the code computes between the two is at most the threshold, the double nearest to 0.6,
  and minimal among the computed distances: no candidate whose template parses has a
  strictly smaller computed distance, the distance is at most that of every candidate
  whose distance is a number, and a candidate whose computed distance exceeds the
  threshold is not the one returned. A template of another length than the probe has
  distance infinity, so the minimum is in particular over the templates of matching
  length. The computed distance is the square root of the sum, taken in the order of the
  coordinates, of the squared differences, where every difference, square, partial sum
  and the square root is rounded to the nearest double, each within half a unit in the
  last place of the exact result; when no step before the square root rounds, it is the
  Euclidean distance rounded to the nearest double.
\<close>

theorem getEmployeeByEmbedding_nearest:
  assumes "getEmployeeByEmbedding rt embedding candidates = Some e"
  shows "(\<exists>target emb.
           parseEmbedding rt (Some embedding) = Some target \<and>
           parseEmbedding rt (faceEmbedding e) = Some emb \<and>
           e \<in> set candidates \<and>
           js_le (euclideanDistance target emb) THRESHOLD \<and>
           (\<forall>c\<in>set candidates. \<forall>cemb. parseEmbedding rt (faceEmbedding c) = Some cemb \<longrightarrow>
              \<not> js_lt (euclideanDistance target cemb) (euclideanDistance target emb) \<and>
              (euclideanDistance target cemb \<noteq> NaN \<longrightarrow>
                 js_le (euclideanDistance target emb) (euclideanDistance target cemb)) \<and>
              (js_lt THRESHOLD (euclideanDistance target cemb) \<longrightarrow> c \<noteq> e))) \<and>
         THRESHOLD = Fin (5404319552844595 / 9007199254740992) \<and>
         \<bar>5404319552844595 / 9007199254740992 - 6 / 10\<bar> \<le> (1 / 2 ^ 54 :: real) \<and>
         euclideanDistance a b =
           (if length a \<noteq> length b then PosInf
            else js_sqrt (fold (\<lambda>(x, y) acc. js_add acc (js_mul (js_sub x y) (js_sub x y)))
                            (zip a b) (Fin 0))) \<and>
         js_sub (Fin x) (Fin y) = fl (x - y) \<and>
         js_mul (Fin x) (Fin y) = fl (x * y) \<and>
         js_add (Fin x) (Fin y) = fl (x + y) \<and>
         (0 \<le> x \<longrightarrow> js_sqrt (Fin x) = fl (sqrt x)) \<and>
         (fl x = Fin y \<longrightarrow> \<bar>y - x\<bar> \<le> pow2 (max \<lfloor>log 2 \<bar>x\<bar>\<rfloor> (- 1022) - 53)) \<and>
         (length xs = length ys \<longrightarrow> unrounded 0 (zip xs ys) \<longrightarrow>
            euclideanDistance (map Fin xs) (map Fin ys) = fl (exact_distance xs ys))"
proof (intro conjI impI)
  show "\<exists>target emb.
           parseEmbedding rt (Some embedding) = Some target \<and>
           parseEmbedding rt (faceEmbedding e) = Some emb \<and>
           e \<in> set candidates \<and>
           js_le (euclideanDistance target emb) THRESHOLD \<and>
           (\<forall>c\<in>set candidates. \<forall>cemb. parseEmbedding rt (faceEmbedding c) = Some cemb \<longrightarrow>
              \<not> js_lt (euclideanDistance target cemb) (euclideanDistance target emb) \<and>
              (euclideanDistance target cemb \<noteq> NaN \<longrightarrow>
                 js_le (euclideanDistance target emb) (euclideanDistance target cemb)) \<and>
              (js_lt THRESHOLD (euclideanDistance target cemb) \<longrightarrow> c \<noteq> e))"
    using assms by (rule getEmployeeByEmbedding_minimal)
  show "THRESHOLD = Fin (5404319552844595 / 9007199254740992)"
    by (rule THRESHOLD_value)
  show "\<bar>5404319552844595 / 9007199254740992 - 6 / 10\<bar> \<le> (1 / 2 ^ 54 :: real)"
    by simp
  show "euclideanDistance a b =
           (if length a \<noteq> length b then PosInf
            else js_sqrt (fold (\<lambda>(x, y) acc. js_add acc (js_mul (js_sub x y) (js_sub x y)))
                            (zip a b) (Fin 0)))"
    by (rule euclideanDistance_fold)
  show "js_sub (Fin x) (Fin y) = fl (x - y)" by simp
  show "js_mul (Fin x) (Fin y) = fl (x * y)" by simp
  show "js_add (Fin x) (Fin y) = fl (x + y)" by simp
  show "js_sqrt (Fin x) = fl (sqrt x)" if "0 \<le> x" using that by simp
  show "\<bar>y - x\<bar> \<le> pow2 (max \<lfloor>log 2 \<bar>x\<bar>\<rfloor> (- 1022) - 53)" if "fl x = Fin y"
    using that by (rule fl_near)
  show "euclideanDistance (map Fin xs) (map Fin ys) = fl (exact_distance xs ys)"
    if "length xs = length ys" and "unrounded 0 (zip xs ys)"
    using that by (rule euclideanDistance_unrounded)
qed

theorem getEmployeeByEmbedding_nearest_witness:
  "getEmployeeByEmbedding example_runtime ''[0,0]''
     [example_employee ''e1'' (Some ''[0.5,3.725290298461914e-9]''),
      example_employee ''e2'' (Some ''[0.5,0]'')]
     = Some (example_employee ''e1'' (Some ''[0.5,3.725290298461914e-9]'')) \<and>
   (\<exists>target emb.
      parseEmbedding example_runtime (Some ''[0,0]'') = Some target \<and>
      parseEmbedding example_runtime
        (faceEmbedding (example_employee ''e1'' (Some ''[0.5,3.725290298461914e-9]''))) = Some emb \<and>
      example_employee ''e1'' (Some ''[0.5,3.725290298461914e-9]'')
        \<in> set [example_employee ''e1'' (Some ''[0.5,3.725290298461914e-9]''),
               example_employee ''e2'' (Some ''[0.5,0]'')] \<and>
      js_le (euclideanDistance target emb) THRESHOLD \<and>
      (\<forall>c\<in>set [example_employee ''e1'' (Some ''[0.5,3.725290298461914e-9]''),
                example_employee ''e2'' (Some ''[0.5,0]'')].
         \<forall>cemb. parseEmbedding example_runtime (faceEmbedding c) = Some cemb \<longrightarrow>
           \<not> js_lt (euclideanDistance target cemb) (euclideanDistance target emb) \<and>
           (euclideanDistance target cemb \<noteq> NaN \<longrightarrow>
              js_le (euclideanDistance target emb) (euclideanDistance target cemb)) \<and>
           (js_lt THRESHOLD (euclideanDistance target cemb) \<longrightarrow>
              c \<noteq> example_employee ''e1'' (Some ''[0.5,3.725290298461914e-9]'')))) \<and>
   euclideanDistance [Fin 0, Fin 0] [Fin (1 / 2), Fin (1 / 2 ^ 28)]
     = js_sqrt (js_add (js_add (Fin 0)
                  (js_mul (js_sub (Fin 0) (Fin (1 / 2))) (js_sub (Fin 0) (Fin (1 / 2)))))
                  (js_mul (js_sub (Fin 0) (Fin (1 / 2 ^ 28))) (js_sub (Fin 0) (Fin (1 / 2 ^ 28))))) \<and>
   js_sub (Fin 0) (Fin (1 / 2 ^ 28)) = Fin (- (1 / 2 ^ 28)) \<and>
   js_mul (Fin (- (1 / 2 ^ 28))) (Fin (- (1 / 2 ^ 28))) = Fin (1 / 2 ^ 56) \<and>
   js_add (Fin (1 / 4)) (Fin (1 / 2 ^ 56)) = Fin (1 / 4) \<and>
   (0 :: real) \<le> 1 / 4 \<and>
   js_sqrt (Fin (1 / 4)) = Fin (1 / 2) \<and>
   fl (1 / 4 + 1 / 2 ^ 56) = Fin (1 / 4) \<and>
   \<bar>1 / 4 - (1 / 4 + 1 / 2 ^ 56)\<bar> \<le> pow2 (max \<lfloor>log 2 \<bar>1 / 4 + 1 / 2 ^ 56 :: real\<bar>\<rfloor> (- 1022) - 53) \<and>
   length [0, 0 :: real] = length [1 / 2, 0 :: real] \<and>
   unrounded 0 (zip [0, 0] [1 / 2, 0]) \<and>
   exact_distance [0, 0] [1 / 2, 0] = 1 / 2 \<and>
   euclideanDistance (map Fin [0, 0]) (map Fin [1 / 2, 0]) = Fin (1 / 2)"
proof -
  let ?A = "example_employee ''e1'' (Some ''[0.5,3.725290298461914e-9]'')"
  let ?B = "example_employee ''e2'' (Some ''[0.5,0]'')"
  have h: "getEmployeeByEmbedding example_runtime ''[0,0]'' [?A, ?B] = Some ?A"
    by (simp add: ex_simps)
  have r: "fl (1 / 4 + 1 / 2 ^ 56) = Fin (1 / 4)"
    by (simp add: fl_values)
  have u: "unrounded 0 (zip [0, 0] [1 / 2, 0])"
    by (simp add: is_double_def fl_values)
  have d: "exact_distance [0, 0] [1 / 2, 0] = 1 / 2"
    by (simp add: exact_distance_def real_sqrt_divide)
  note T = getEmployeeByEmbedding_nearest [OF h, where a = "[Fin 0, Fin 0]"
      and b = "[Fin (1 / 2), Fin (1 / 2 ^ 28)]" and xs = "[0, 0]" and ys = "[1 / 2, 0]"]
  have t1: "\<exists>target emb.
      parseEmbedding example_runtime (Some ''[0,0]'') = Some target \<and>
      parseEmbedding example_runtime (faceEmbedding ?A) = Some emb \<and>
      ?A \<in> set [?A, ?B] \<and>
      js_le (euclideanDistance target emb) THRESHOLD \<and>
      (\<forall>c\<in>set [?A, ?B].
         \<forall>cemb. parseEmbedding example_runtime (faceEmbedding c) = Some cemb \<longrightarrow>
           \<not> js_lt (euclideanDistance target cemb) (euclideanDistance target emb) \<and>
           (euclideanDistance target cemb \<noteq> NaN \<longrightarrow>
              js_le (euclideanDistance target emb) (euclideanDistance target cemb)) \<and>
           (js_lt THRESHOLD (euclideanDistance target cemb) \<longrightarrow> c \<noteq> ?A))"
    by (rule T [THEN conjunct1])
  have t2: "euclideanDistance [Fin 0, Fin 0] [Fin (1 / 2), Fin (1 / 2 ^ 28)]
     = js_sqrt (js_add (js_add (Fin 0)
                  (js_mul (js_sub (Fin 0) (Fin (1 / 2))) (js_sub (Fin 0) (Fin (1 / 2)))))
                  (js_mul (js_sub (Fin 0) (Fin (1 / 2 ^ 28))) (js_sub (Fin 0) (Fin (1 / 2 ^ 28)))))"
    using T [THEN conjunct2, THEN conjunct2, THEN conjunct2, THEN conjunct1] by simp
  have t3: "js_sub (Fin 0) (Fin (1 / 2 ^ 28)) = Fin (- (1 / 2 ^ 28))"
    "js_mul (Fin (- (1 / 2 ^ 28))) (Fin (- (1 / 2 ^ 28))) = Fin (1 / 2 ^ 56)"
    "js_add (Fin (1 / 4)) (Fin (1 / 2 ^ 56)) = Fin (1 / 4)"
    "js_sqrt (Fin (1 / 4)) = Fin (1 / 2)"
    by (simp_all add: fl_values real_sqrt_divide)
  have t4: "\<bar>1 / 4 - (1 / 4 + 1 / 2 ^ 56)\<bar>
              \<le> pow2 (max \<lfloor>log 2 \<bar>1 / 4 + 1 / 2 ^ 56 :: real\<bar>\<rfloor> (- 1022) - 53)"
    using getEmployeeByEmbedding_nearest [OF h, where x = "1 / 4 + 1 / 2 ^ 56" and y = "1 / 4"] r
    by blast
  have t5: "euclideanDistance (map Fin [0, 0]) (map Fin [1 / 2, 0]) = Fin (1 / 2)"
    using T u d by (simp add: fl_values)
  from h t1 t2 t3 t4 r u d t5 show ?thesis by simp
qed

lemmas route_simps = recognize_def getAllEmployees_def getAttendanceByEmployee_def
          createAttendance_def updateAttendance_def apply_updates_def new_row_def
          matchedEmployee_def dayState_def Let_def

text \<open>
  C4 (as stated): two employees with templates at the same minimum distance make the
  lookup reject the probe as ambiguous. It does not: with two templates at distance 0.5
  from the probe the lookup returns the first of the two employees.
\<close>

theorem equidistant_templates_counterexample:
  "euclideanDistance [Fin 0] [Fin (1 / 2)] = Fin (1 / 2) \<and>
   euclideanDistance [Fin 0] [Fin (- 1 / 2)] = Fin (1 / 2) \<and>
   js_le (Fin (1 / 2)) THRESHOLD \<and>
   e_id (example_employee ''e2'' (Some ''[0.5]'')) \<noteq> e_id (example_employee ''e3'' (Some ''[-0.5]'')) \<and>
   getEmployeeByEmbedding example_runtime ''[0]''
     [example_employee ''e2'' (Some ''[0.5]''), example_employee ''e3'' (Some ''[-0.5]'')]
     = Some (example_employee ''e2'' (Some ''[0.5]''))"
  by (simp add: ex_simps)

text \<open>
  C4 (amended): the lookup has no notion of ambiguity. A candidate within the threshold is
  returned when every earlier candidate is farther from the probe (or not comparable) and
  no later candidate is strictly nearer; later candidates at the same distance do not
  change the result.
\<close>

theorem first_nearest_candidate_wins:
  assumes "parseEmbedding rt (Some embedding) = Some target"
    and "parseEmbedding rt (faceEmbedding e) = Some emb"
    and "js_le (euclideanDistance target emb) THRESHOLD"
    and "\<forall>c\<in>set pre. \<forall>cemb. parseEmbedding rt (faceEmbedding c) = Some cemb \<longrightarrow>
            \<not> js_le (euclideanDistance target cemb) (euclideanDistance target emb)"
    and "\<forall>c\<in>set post. \<forall>cemb. parseEmbedding rt (faceEmbedding c) = Some cemb \<longrightarrow>
            \<not> js_lt (euclideanDistance target cemb) (euclideanDistance target emb)"
  shows "getEmployeeByEmbedding rt embedding (pre @ e # post) = Some e"
  using best_loop_first_min [OF assms(2-5)] assms(1)
  by (simp add: getEmployeeByEmbedding_def)

theorem first_nearest_candidate_wins_witness:
  "parseEmbedding example_runtime (Some ''[0]'') = Some [Fin 0] \<and>
   parseEmbedding example_runtime (faceEmbedding (example_employee ''e2'' (Some ''[0.5]'')))
     = Some [Fin (1 / 2)] \<and>
   js_le (euclideanDistance [Fin 0] [Fin (1 / 2)]) THRESHOLD \<and>
   parseEmbedding example_runtime (faceEmbedding (example_employee ''e1'' (Some ''[1]'')))
     = Some [Fin 1] \<and>
   \<not> js_le (euclideanDistance [Fin 0] [Fin 1]) (euclideanDistance [Fin 0] [Fin (1 / 2)]) \<and>
   parseEmbedding example_runtime (faceEmbedding (example_employee ''e3'' (Some ''[-0.5]'')))
     = Some [Fin (- 1 / 2)] \<and>
   \<not> js_lt (euclideanDistance [Fin 0] [Fin (- 1 / 2)]) (euclideanDistance [Fin 0] [Fin (1 / 2)]) \<and>
   getEmployeeByEmbedding example_runtime ''[0]''
     ([example_employee ''e1'' (Some ''[1]'')] @ example_employee ''e2'' (Some ''[0.5]'')
        # [example_employee ''e3'' (Some ''[-0.5]'')])
     = Some (example_employee ''e2'' (Some ''[0.5]''))"
proof -
  have h1: "parseEmbedding example_runtime (Some ''[0]'') = Some [Fin 0]"
    by (simp add: ex_simps)
  have h2: "parseEmbedding example_runtime (faceEmbedding (example_employee ''e2'' (Some ''[0.5]'')))
     = Some [Fin (1 / 2)]"
    by (simp add: ex_simps)
  have h3: "js_le (euclideanDistance [Fin 0] [Fin (1 / 2)]) THRESHOLD"
    by (simp add: ex_simps)
  have h4: "\<forall>c\<in>set [example_employee ''e1'' (Some ''[1]'')].
      \<forall>cemb. parseEmbedding example_runtime (faceEmbedding c) = Some cemb \<longrightarrow>
        \<not> js_le (euclideanDistance [Fin 0] cemb) (euclideanDistance [Fin 0] [Fin (1 / 2)])"
    by (simp add: ex_simps)
  have h5: "\<forall>c\<in>set [example_employee ''e3'' (Some ''[-0.5]'')].
      \<forall>cemb. parseEmbedding example_runtime (faceEmbedding c) = Some cemb \<longrightarrow>
        \<not> js_lt (euclideanDistance [Fin 0] cemb) (euclideanDistance [Fin 0] [Fin (1 / 2)])"
    by (simp add: ex_simps)
  have e1: "parseEmbedding example_runtime (faceEmbedding (example_employee ''e1'' (Some ''[1]'')))
     = Some [Fin 1]"
    and e3: "parseEmbedding example_runtime (faceEmbedding (example_employee ''e3'' (Some ''[-0.5]'')))
     = Some [Fin (- 1 / 2)]"
    by (simp_all add: ex_simps)
  from h4 e1 have f1: "\<not> js_le (euclideanDistance [Fin 0] [Fin 1]) (euclideanDistance [Fin 0] [Fin (1 / 2)])"
    by simp
  from h5 e3 have f3: "\<not> js_lt (euclideanDistance [Fin 0] [Fin (- 1 / 2)]) (euclideanDistance [Fin 0] [Fin (1 / 2)])"
    by simp
  from first_nearest_candidate_wins [OF h1 h2 h3 h4 h5] h1 h2 h3 e1 f1 e3 f3
  show ?thesis by (intro conjI)
qed

text \<open>
  C8 (as stated): an empty enrolled set and a set without a near template are rejected
  with two different reasons. The lookup answers both with the same \<open>undefined\<close>, and
  the recognition route accepts an employee whose template is farther from the photo
  text than the threshold.
\<close>

theorem rejections_counterexample:
  "getEmployeeByEmbedding example_runtime ''[0]'' [] = None \<and>
   getEmployeeByEmbedding example_runtime ''[0]'' [example_employee ''e1'' (Some ''[1]'')] = None \<and>
   fst (recognize (example_input ''08:30'' ''a1'')
          \<lparr>employees = [example_employee ''e1'' (Some ''[1]'')], attendanceRecords = []\<rparr>)
     = Recognized (example_employee ''e1'' (Some ''[1]''))
         (Some (check_in_row (example_input ''08:30'' ''a1'') (example_employee ''e1'' (Some ''[1]''))))
         check_in (85 / 100)"
  by (simp add: ex_simps route_simps example_input_def check_in_row_def)

text \<open>
  C8 (amended): the lookup returns \<open>undefined\<close>, a value and not an exception, for an
  empty candidate list, and in general exactly when the probe does not parse or no
  candidate's template is within the threshold; it gives no reason. The recognition
  route, given a photo, answers that no faces are registered exactly when no employee
  has a stored embedding, and has no outcome for an unrecognised face.
\<close>

theorem lookup_and_route_rejections:
  "getEmployeeByEmbedding rt embedding [] = None \<and>
   (getEmployeeByEmbedding rt embedding candidates = None \<longleftrightarrow>
      parseEmbedding rt (Some embedding) = None \<or>
      (\<forall>c\<in>set candidates. \<forall>cemb. parseEmbedding rt (faceEmbedding c) = Some cemb \<longrightarrow>
         \<not> js_le (euclideanDistance (the (parseEmbedding rt (Some embedding))) cemb) THRESHOLD)) \<and>
   (truthy (photo inp) \<longrightarrow>
      (fst (recognize inp d) = No_faces_registered
         \<longleftrightarrow> filter (\<lambda>e. truthy (faceEmbedding e)) (employees d) = []))"
proof (intro conjI impI)
  show "getEmployeeByEmbedding rt embedding [] = None"
    by (simp add: getEmployeeByEmbedding_def split: option.splits)
  show "getEmployeeByEmbedding rt embedding candidates = None \<longleftrightarrow>
      parseEmbedding rt (Some embedding) = None \<or>
      (\<forall>c\<in>set candidates. \<forall>cemb. parseEmbedding rt (faceEmbedding c) = Some cemb \<longrightarrow>
         \<not> js_le (euclideanDistance (the (parseEmbedding rt (Some embedding))) cemb) THRESHOLD)"
    by (auto simp: getEmployeeByEmbedding_def best_loop_None_iff split: option.splits)
  assume p: "truthy (photo inp)"
  show "fst (recognize inp d) = No_faces_registered
         \<longleftrightarrow> filter (\<lambda>e. truthy (faceEmbedding e)) (employees d) = []"
  proof
    assume "filter (\<lambda>e. truthy (faceEmbedding e)) (employees d) = []"
    with p show "fst (recognize inp d) = No_faces_registered"
      by (simp add: recognize_no_faces)
  next
    assume "fst (recognize inp d) = No_faces_registered"
    then show "filter (\<lambda>e. truthy (faceEmbedding e)) (employees d) = []"
      using p
      by (auto simp: recognize_def getAllEmployees_def Let_def createAttendance_def
            updateAttendance_def split: if_splits option.splits sum.splits prod.splits)
  qed
qed


theorem lookup_and_route_rejections_witness:
  "truthy (photo (example_input ''08:30'' ''a1'')) \<and>
   getEmployeeByEmbedding example_runtime ''[0]'' [] = None \<and>
   (getEmployeeByEmbedding example_runtime ''[0]'' [example_employee ''e1'' (Some ''[1]'')] = None \<longleftrightarrow>
      parseEmbedding example_runtime (Some ''[0]'') = None \<or>
      (\<forall>c\<in>set [example_employee ''e1'' (Some ''[1]'')].
         \<forall>cemb. parseEmbedding example_runtime (faceEmbedding c) = Some cemb \<longrightarrow>
         \<not> js_le (euclideanDistance (the (parseEmbedding example_runtime (Some ''[0]''))) cemb) THRESHOLD)) \<and>
   (fst (recognize (example_input ''08:30'' ''a1'')
           \<lparr>employees = [example_employee ''e4'' None], attendanceRecords = []\<rparr>) = No_faces_registered
      \<longleftrightarrow> filter (\<lambda>e. truthy (faceEmbedding e))
            (employees \<lparr>employees = [example_employee ''e4'' None], attendanceRecords = []\<rparr>) = [])"
proof -
  have p: "truthy (photo (example_input ''08:30'' ''a1''))"
    by (simp add: example_input_def)
  from lookup_and_route_rejections
         [of example_runtime "''[0]''" "[example_employee ''e1'' (Some ''[1]'')]"
             "example_input ''08:30'' ''a1''"
             "\<lparr>employees = [example_employee ''e4'' None], attendanceRecords = []\<rparr>"] p
  show ?thesis by blast
qed

text \<open>
  C10: a stored embedding text that the parser does not turn into an array makes
  \<open>parseEmbedding\<close> return null; the candidate is skipped (the lookup returns what it
  returns without the candidate) and is never the employee returned. A probe text that
  is not an array makes the lookup return \<open>undefined\<close>. With a parser that returns
  arrays only for texts opening with a bracket, this covers the five seeded employees and
  every employee whose embedding was written by \<open>POST /api/face/embedding\<close>.
\<close>

theorem non_array_embedding_skipped:
  "(not_json_array rt (faceEmbedding e) \<longrightarrow>
      parseEmbedding rt (faceEmbedding e) = None \<and>
      getEmployeeByEmbedding rt embedding candidates \<noteq> Some e \<and>
      getEmployeeByEmbedding rt embedding (pre @ e # post)
        = getEmployeeByEmbedding rt embedding (pre @ post)) \<and>
   (not_json_array rt (Some probe) \<longrightarrow>
      getEmployeeByEmbedding rt probe candidates = None) \<and>
   (bracketed rt \<longrightarrow>
      (\<forall>s\<in>set (employees (initializeDatabase employeeIds recordIds day)).
         getEmployeeByEmbedding rt embedding candidates \<noteq> Some s)) \<and>
   (bracketed rt \<longrightarrow>
    post_embedding photo' employeeId' now d = (Embedding_ok updated, d') \<longrightarrow>
      (\<forall>u\<in>set (employees d'). Some (e_id u) = employeeId' \<longrightarrow>
         getEmployeeByEmbedding rt embedding candidates \<noteq> Some u))"
proof (intro conjI impI ballI)
  assume n: "not_json_array rt (faceEmbedding e)"
  then show p: "parseEmbedding rt (faceEmbedding e) = None"
    by (rule parseEmbedding_not_array)
  then show "getEmployeeByEmbedding rt embedding candidates \<noteq> Some e"
    using getEmployeeByEmbedding_parsed by blast
  from p show "getEmployeeByEmbedding rt embedding (pre @ e # post)
        = getEmployeeByEmbedding rt embedding (pre @ post)"
    by (simp add: getEmployeeByEmbedding_def best_loop_unparsed split: option.splits)
next
  assume "not_json_array rt (Some probe)"
  then show "getEmployeeByEmbedding rt probe candidates = None"
    by (simp add: getEmployeeByEmbedding_def parseEmbedding_not_array)
next
  fix s
  assume b: "bracketed rt"
    and s: "s \<in> set (employees (initializeDatabase employeeIds recordIds day))"
  from seeded_embeddings [OF s] b have "not_json_array rt (faceEmbedding s)"
    by (auto simp: bracketed_JSON_stringify) (simp add: not_json_array_def)
  then show "getEmployeeByEmbedding rt embedding candidates \<noteq> Some s"
    using parseEmbedding_not_array getEmployeeByEmbedding_parsed by blast
next
  fix u
  assume b: "bracketed rt"
    and p: "post_embedding photo' employeeId' now d = (Embedding_ok updated, d')"
    and u: "u \<in> set (employees d')" "Some (e_id u) = employeeId'"
  from u(2) p have p': "post_embedding photo' (Some (e_id u)) now d = (Embedding_ok updated, d')"
    by simp
  from post_embedding_stores [OF p' u(1) refl] b have "not_json_array rt (faceEmbedding u)"
    by (simp add: bracketed_fakeEmbedding)
  then show "getEmployeeByEmbedding rt embedding candidates \<noteq> Some u"
    using parseEmbedding_not_array getEmployeeByEmbedding_parsed by blast
qed

theorem non_array_embedding_skipped_witness:
  "not_json_array example_runtime
     (faceEmbedding (example_employee ''e1'' (Some (JSON_stringify ''sample_embedding_1'')))) \<and>
   not_json_array example_runtime (Some (fakeEmbedding ''e2'' ''1700000000000'')) \<and>
   bracketed example_runtime \<and>
   post_embedding (Some ''photo'') (Some ''e2'') ''1700000000000''
       \<lparr>employees = [example_employee ''e2'' (Some ''[0]'')], attendanceRecords = []\<rparr>
     = (Embedding_ok (Some ((example_employee ''e2'' (Some ''[0]''))
            \<lparr>faceEmbedding := Some (fakeEmbedding ''e2'' ''1700000000000''),
              photoUrl := Some ''photo''\<rparr>)),
        \<lparr>employees = [(example_employee ''e2'' (Some ''[0]''))
            \<lparr>faceEmbedding := Some (fakeEmbedding ''e2'' ''1700000000000''),
              photoUrl := Some ''photo''\<rparr>], attendanceRecords = []\<rparr>) \<and>
   parseEmbedding example_runtime
     (faceEmbedding (example_employee ''e1'' (Some (JSON_stringify ''sample_embedding_1'')))) = None \<and>
   getEmployeeByEmbedding example_runtime ''[0]''
       [example_employee ''e1'' (Some (JSON_stringify ''sample_embedding_1''))]
     \<noteq> Some (example_employee ''e1'' (Some (JSON_stringify ''sample_embedding_1''))) \<and>
   getEmployeeByEmbedding example_runtime ''[0]''
       ([] @ example_employee ''e1'' (Some (JSON_stringify ''sample_embedding_1''))
          # [example_employee ''e3'' (Some ''[0]'')])
     = getEmployeeByEmbedding example_runtime ''[0]'' ([] @ [example_employee ''e3'' (Some ''[0]'')]) \<and>
   getEmployeeByEmbedding example_runtime (fakeEmbedding ''e2'' ''1700000000000'')
       [example_employee ''e1'' (Some (JSON_stringify ''sample_embedding_1''))] = None \<and>
   list_all (\<lambda>s. getEmployeeByEmbedding example_runtime ''[0]''
        [example_employee ''e1'' (Some (JSON_stringify ''sample_embedding_1''))] \<noteq> Some s)
     (employees (initializeDatabase [''e1'', ''e2'', ''e3'', ''e4'', ''e5'']
                            [''a1'', ''a2'', ''a3'', ''a4'', ''a5''] ''2024-01-15'')) \<and>
   getEmployeeByEmbedding example_runtime ''[0]''
        [example_employee ''e1'' (Some (JSON_stringify ''sample_embedding_1''))]
     \<noteq> Some ((example_employee ''e2'' (Some ''[0]''))
            \<lparr>faceEmbedding := Some (fakeEmbedding ''e2'' ''1700000000000''),
              photoUrl := Some ''photo''\<rparr>)"
proof -
  have h1: "not_json_array example_runtime
     (faceEmbedding (example_employee ''e1'' (Some (JSON_stringify ''sample_embedding_1''))))"
    by (simp add: not_json_array_def example_runtime_def example_employee_def JSON_stringify_def)
  have h2: "not_json_array example_runtime (Some (fakeEmbedding ''e2'' ''1700000000000''))"
    by (simp add: not_json_array_def example_runtime_def fakeEmbedding_def JSON_stringify_def)
  have h3: "bracketed example_runtime" by (rule bracketed_example)
  have h4: "post_embedding (Some ''photo'') (Some ''e2'') ''1700000000000''
       \<lparr>employees = [example_employee ''e2'' (Some ''[0]'')], attendanceRecords = []\<rparr>
     = (Embedding_ok (Some ((example_employee ''e2'' (Some ''[0]''))
            \<lparr>faceEmbedding := Some (fakeEmbedding ''e2'' ''1700000000000''),
              photoUrl := Some ''photo''\<rparr>)),
        \<lparr>employees = [(example_employee ''e2'' (Some ''[0]''))
            \<lparr>faceEmbedding := Some (fakeEmbedding ''e2'' ''1700000000000''),
              photoUrl := Some ''photo''\<rparr>], attendanceRecords = []\<rparr>)"
    by (simp add: post_embedding_def getEmployee_def updateEmployee_embedding_def
          example_employee_def Let_def)
  note T = non_array_embedding_skipped
      [of example_runtime "example_employee ''e1'' (Some (JSON_stringify ''sample_embedding_1''))"
          "''[0]''" "[example_employee ''e1'' (Some (JSON_stringify ''sample_embedding_1''))]"
          "[]" "[example_employee ''e3'' (Some ''[0]'')]"
          "fakeEmbedding ''e2'' ''1700000000000''"
          "[''e1'', ''e2'', ''e3'', ''e4'', ''e5'']" "[''a1'', ''a2'', ''a3'', ''a4'', ''a5'']"
          "''2024-01-15''" "Some ''photo''" "Some ''e2''" "''1700000000000''"
          "\<lparr>employees = [example_employee ''e2'' (Some ''[0]'')], attendanceRecords = []\<rparr>"]
  have id2: "e_id ((example_employee ''e2'' (Some ''[0]''))
            \<lparr>faceEmbedding := Some (fakeEmbedding ''e2'' ''1700000000000''),
              photoUrl := Some ''photo''\<rparr>) = ''e2''"
    by (simp add: example_employee_def)
  from T h1 h2 h3 h4 id2 show ?thesis unfolding list_all_iff by fastforce
qed

section \<open>The claims about the attendance rows\<close>

lemma dayState_NoRecord:
  "dayState d eid dt = NoRecord \<longleftrightarrow> getAttendanceByEmployee d eid dt = None"
  by (simp add: dayState_def split: option.splits)

lemma dayState_CheckedIn:
  "dayState d eid dt = CheckedIn \<longleftrightarrow>
     (\<exists>ex. getAttendanceByEmployee d eid dt = Some ex \<and> \<not> truthy (checkOut ex))"
  by (simp add: dayState_def split: option.splits)

lemma dayState_Complete:
  "dayState d eid dt = Complete \<longleftrightarrow>
     (\<exists>ex. getAttendanceByEmployee d eid dt = Some ex \<and> truthy (checkOut ex))"
  by (simp add: dayState_def split: option.splits)

lemma getAttendanceByEmployee_after_check_in:
  assumes "getAttendanceByEmployee d (e_id e) (today inp) = None"
  shows "getAttendanceByEmployee
           (d\<lparr>attendanceRecords := attendanceRecords d @ [check_in_row inp e]\<rparr>)
           (e_id e) (today inp) = Some (check_in_row inp e)"
proof -
  have "\<forall>r\<in>set (attendanceRecords d). \<not> (employeeId r = e_id e \<and> date r = today inp)"
    using assms by (simp add: getAttendanceByEmployee_def find_None_iff)
  then show ?thesis
    by (simp add: getAttendanceByEmployee_def find_append_fresh check_in_row_def)
qed

lemma getAttendanceByEmployee_after_check_out:
  assumes "getAttendanceByEmployee d eid dt = Some ex"
  shows "getAttendanceByEmployee
           (d\<lparr>attendanceRecords :=
                map (\<lambda>r. if a_id r = a_id ex then r\<lparr>checkOut := Some t\<rparr> else r)
                  (attendanceRecords d)\<rparr>)
           eid dt = Some (ex\<lparr>checkOut := Some t\<rparr>)"
proof -
  have "find (\<lambda>r. employeeId r = eid \<and> date r = dt)
          (map (\<lambda>r. if a_id r = a_id ex then r\<lparr>checkOut := Some t\<rparr> else r) (attendanceRecords d))
        = map_option (\<lambda>r. if a_id r = a_id ex then r\<lparr>checkOut := Some t\<rparr> else r)
            (find (\<lambda>r. employeeId r = eid \<and> date r = dt) (attendanceRecords d))"
    by (rule find_map_preserved) simp
  with assms show ?thesis by (simp add: getAttendanceByEmployee_def)
qed

lemmas example_db_simps = example_db_def example_input_def example_employee_def check_in_row_def
  matchedEmployee_def getAllEmployees_def dayState_def getAttendanceByEmployee_def

text \<open>The recognition route keeps at most one row per employee and date.\<close>

lemma recognize_preserves_one_per_day:
  assumes "one_per_day (attendanceRecords d)"
  shows "one_per_day (attendanceRecords (snd (recognize inp d)))"
proof (cases "truthy (photo inp) \<and> matchedEmployee inp d \<noteq> None")
  case False
  then have "snd (recognize inp d) = d"
    by (auto simp: recognize_def matchedEmployee_def getAllEmployees_def Let_def)
  with assms show ?thesis by simp
next
  case True
  then obtain e where p: "truthy (photo inp)" and m: "matchedEmployee inp d = Some e" by auto
  show ?thesis
  proof (cases "getAttendanceByEmployee d (e_id e) (today inp)")
    case None
    show ?thesis
    proof (cases "uuid inp \<in> set (map a_id (attendanceRecords d))")
      case True
      with None have "snd (recognize inp d) = d"
        by (simp add: recognize_matched [OF p m] createAttendance_def)
      with assms show ?thesis by simp
    next
      case False
      have "\<forall>r\<in>set (attendanceRecords d). \<not> (employeeId r = e_id e \<and> date r = today inp)"
        using None by (simp add: getAttendanceByEmployee_def find_None_iff)
      then have "(e_id e, today inp) \<notin> set (map (\<lambda>r. (employeeId r, date r)) (attendanceRecords d))"
        by auto
      with assms show ?thesis
        by (simp add: recognize_check_in [OF p m None False] one_per_day_def check_in_row_def)
    qed
  next
    case (Some ex)
    have keys: "(\<lambda>r. (employeeId r, date r)) \<circ>
            (\<lambda>r. if a_id r = a_id ex then r\<lparr>checkOut := Some (currentTime inp)\<rparr> else r)
          = (\<lambda>r. (employeeId r, date r))"
      by (auto simp: fun_eq_iff)
    show ?thesis
    proof (cases "truthy (checkOut ex)")
      case True
      with assms show ?thesis by (simp add: recognize_complete [OF p m Some])
    next
      case False
      with assms show ?thesis
        by (simp add: recognize_check_out [OF p m Some] one_per_day_def keys)
    qed
  qed
qed

text \<open>
  C2 (as stated): on the first scan of the day the status is late exactly when the scan's
  time of day is after the cutoff. A first scan at 09:00:30, thirty seconds after the
  cutoff, is stored with check-in \<open>09:00\<close> and status present.
\<close>

theorem seconds_after_cutoff_counterexample:
  "take 5 (toTimeString 9 0 30 ''GMT+0000 (Coordinated Universal Time)'') = ''09:00'' \<and>
   9 * 3600 < 9 * 3600 + 0 * 60 + (30::nat) \<and>
   dayState (example_db []) ''e1'' ''2024-01-15'' = NoRecord \<and>
   fst (recognize
          (example_input (take 5 (toTimeString 9 0 30 ''GMT+0000 (Coordinated Universal Time)'')) ''a1'')
          (example_db []))
     = Recognized (example_employee ''e1'' (Some ''[0]''))
         (Some \<lparr>a_id = ''a1'', employeeId = ''e1'', date = ''2024-01-15'',
                checkIn = Some ''09:00'', checkOut = None, a_status = ''present'',
                confidence = Some (85 / 100)\<rparr>)
         check_in (85 / 100)"
  by (simp add: route_simps example_db_simps toTimeString_def two_digits_def digit_char_def)

text \<open>
  C2 (amended): a scan is a call of \<open>recognize\<close> with a photo whose random draw selects
  the employee. On the first scan of the employee's day (no row yet, fresh row id) a row
  is appended with \<open>checkIn\<close> the clock string, no \<open>checkOut\<close>, and status late exactly
  when the clock string is after \<open>09:00\<close>; the outcome is a check-in and the day is then
  checked in. On a scan of a checked-in day the row's \<open>checkOut\<close> becomes the clock
  string, the outcome is a check-out and the day is then complete. The clock string is
  the time of day without its seconds: at hour \<open>h\<close>, minute \<open>m\<close> and any second the
  comparison with \<open>09:00\<close> is the comparison of \<open>60 h + m\<close> with 540.
\<close>

theorem recognize_state_machine:
  assumes "truthy (photo inp)" and "matchedEmployee inp d = Some e"
  shows
   "(dayState d (e_id e) (today inp) = NoRecord \<longrightarrow>
     uuid inp \<notin> set (map a_id (attendanceRecords d)) \<longrightarrow>
       (\<exists>row conf d'. recognize inp d = (Recognized e (Some row) check_in conf, d') \<and>
          attendanceRecords d' = attendanceRecords d @ [row] \<and>
          employeeId row = e_id e \<and> date row = today inp \<and>
          checkIn row = Some (currentTime inp) \<and> checkOut row = None \<and>
          a_status row = (if currentTime inp > ''09:00'' then ''late'' else ''present'') \<and>
          dayState d' (e_id e) (today inp) = CheckedIn)) \<and>
    (dayState d (e_id e) (today inp) = CheckedIn \<longrightarrow> currentTime inp \<noteq> [] \<longrightarrow>
       (\<exists>ex att conf d'. recognize inp d = (Recognized e att check_out conf, d') \<and>
          getAttendanceByEmployee d (e_id e) (today inp) = Some ex \<and>
          getAttendanceByEmployee d' (e_id e) (today inp)
            = Some (ex\<lparr>checkOut := Some (currentTime inp)\<rparr>) \<and>
          dayState d' (e_id e) (today inp) = Complete)) \<and>
    (\<forall>h m s zone. h < 24 \<longrightarrow> m < 60 \<longrightarrow>
       currentTime inp = take 5 (toTimeString h m s zone) \<longrightarrow>
       (currentTime inp > ''09:00'') = (9 * 60 < h * 60 + m))"
proof (intro conjI impI allI)
  assume s: "dayState d (e_id e) (today inp) = NoRecord"
    and fresh: "uuid inp \<notin> set (map a_id (attendanceRecords d))"
  from s have none: "getAttendanceByEmployee d (e_id e) (today inp) = None"
    by (simp add: dayState_NoRecord)
  let ?d' = "d\<lparr>attendanceRecords := attendanceRecords d @ [check_in_row inp e]\<rparr>"
  have "recognize inp d =
     (Recognized e (Some (check_in_row inp e)) check_in
        (85 / 100 + random_confidence inp * (14 / 100)), ?d')"
    by (rule recognize_check_in [OF assms none fresh])
  moreover have "dayState ?d' (e_id e) (today inp) = CheckedIn"
    using getAttendanceByEmployee_after_check_in [OF none]
    by (simp add: dayState_def check_in_row_def)
  ultimately show "\<exists>row conf d'. recognize inp d = (Recognized e (Some row) check_in conf, d') \<and>
          attendanceRecords d' = attendanceRecords d @ [row] \<and>
          employeeId row = e_id e \<and> date row = today inp \<and>
          checkIn row = Some (currentTime inp) \<and> checkOut row = None \<and>
          a_status row = (if currentTime inp > ''09:00'' then ''late'' else ''present'') \<and>
          dayState d' (e_id e) (today inp) = CheckedIn"
    by (intro exI [of _ "check_in_row inp e"] exI [of _ "85 / 100 + random_confidence inp * (14 / 100)"]
          exI [of _ ?d']) (simp add: check_in_row_def)
next
  assume s: "dayState d (e_id e) (today inp) = CheckedIn" and t: "currentTime inp \<noteq> []"
  from s obtain ex where ex: "getAttendanceByEmployee d (e_id e) (today inp) = Some ex"
    "\<not> truthy (checkOut ex)"
    by (auto simp: dayState_CheckedIn)
  let ?rows = "map (\<lambda>r. if a_id r = a_id ex then r\<lparr>checkOut := Some (currentTime inp)\<rparr> else r)
                 (attendanceRecords d)"
  let ?d' = "d\<lparr>attendanceRecords := ?rows\<rparr>"
  have "recognize inp d =
     (Recognized e (find (\<lambda>r. a_id r = a_id ex) ?rows) check_out
        (85 / 100 + random_confidence inp * (14 / 100)), ?d')"
    by (rule recognize_check_out [OF assms ex])
  moreover have g: "getAttendanceByEmployee ?d' (e_id e) (today inp)
            = Some (ex\<lparr>checkOut := Some (currentTime inp)\<rparr>)"
    by (rule getAttendanceByEmployee_after_check_out [OF ex(1)])
  moreover have "dayState ?d' (e_id e) (today inp) = Complete"
    using t by (simp add: dayState_def g)
  ultimately show "\<exists>ex att conf d'. recognize inp d = (Recognized e att check_out conf, d') \<and>
          getAttendanceByEmployee d (e_id e) (today inp) = Some ex \<and>
          getAttendanceByEmployee d' (e_id e) (today inp)
            = Some (ex\<lparr>checkOut := Some (currentTime inp)\<rparr>) \<and>
          dayState d' (e_id e) (today inp) = Complete"
    using ex(1) by blast
next
  fix h m s :: nat and zone :: string
  assume "h < 24" "m < 60" "currentTime inp = take 5 (toTimeString h m s zone)"
  then show "(currentTime inp > ''09:00'') = (9 * 60 < h * 60 + m)"
    by (simp add: slice_toTimeString hhmm_late)
qed

theorem recognize_state_machine_witness:
  "truthy (photo (example_input ''08:30'' ''a1'')) \<and>
   matchedEmployee (example_input ''08:30'' ''a1'') (example_db [])
     = Some (example_employee ''e1'' (Some ''[0]'')) \<and>
   dayState (example_db []) ''e1'' ''2024-01-15'' = NoRecord \<and>
   uuid (example_input ''08:30'' ''a1'') \<notin> set (map a_id (attendanceRecords (example_db []))) \<and>
   fst (recognize (example_input ''08:30'' ''a1'') (example_db []))
     = Recognized (example_employee ''e1'' (Some ''[0]''))
         (Some (check_in_row (example_input ''08:30'' ''a1'') (example_employee ''e1'' (Some ''[0]''))))
         check_in (85 / 100) \<and>
   a_status (check_in_row (example_input ''08:30'' ''a1'') (example_employee ''e1'' (Some ''[0]'')))
     = ''present'' \<and>
   dayState (snd (recognize (example_input ''08:30'' ''a1'') (example_db []))) ''e1'' ''2024-01-15''
     = CheckedIn \<and>
   (currentTime (example_input ''08:30'' ''a1'') > ''09:00'') = (9 * 60 < 8 * 60 + (30::nat)) \<and>
   matchedEmployee (example_input ''17:45'' ''a2'')
       (example_db [check_in_row (example_input ''08:30'' ''a1'') (example_employee ''e1'' (Some ''[0]''))])
     = Some (example_employee ''e1'' (Some ''[0]'')) \<and>
   dayState (example_db [check_in_row (example_input ''08:30'' ''a1'') (example_employee ''e1'' (Some ''[0]''))])
       ''e1'' ''2024-01-15'' = CheckedIn \<and>
   currentTime (example_input ''17:45'' ''a2'') \<noteq> [] \<and>
   dayState (snd (recognize (example_input ''17:45'' ''a2'')
       (example_db [check_in_row (example_input ''08:30'' ''a1'') (example_employee ''e1'' (Some ''[0]''))])))
       ''e1'' ''2024-01-15'' = Complete"
proof -
  let ?e = "example_employee ''e1'' (Some ''[0]'')"
  let ?i1 = "example_input ''08:30'' ''a1''"
  let ?i2 = "example_input ''17:45'' ''a2''"
  let ?d2 = "example_db [check_in_row ?i1 ?e]"
  have p1: "truthy (photo ?i1)" and p2: "truthy (photo ?i2)"
    by (simp_all add: example_input_def)
  have m1: "matchedEmployee ?i1 (example_db []) = Some ?e"
    by (simp add: example_db_simps)
  have m2: "matchedEmployee ?i2 ?d2 = Some ?e"
    by (simp add: example_db_simps)
  have s1: "dayState (example_db []) (e_id ?e) (today ?i1) = NoRecord"
    by (simp add: example_db_simps)
  have f1: "uuid ?i1 \<notin> set (map a_id (attendanceRecords (example_db [])))"
    by (simp add: example_db_simps)
  have s2: "dayState ?d2 (e_id ?e) (today ?i2) = CheckedIn"
    by (simp add: example_db_simps)
  have t2: "currentTime ?i2 \<noteq> []"
    by (simp add: example_input_def)
  have c1: "currentTime ?i1 = take 5 (toTimeString 8 30 12 ''GMT+0000 (Coordinated Universal Time)'')"
    by (simp add: example_input_def slice_toTimeString hhmm_def digit_char_def)
  have ids: "e_id ?e = ''e1''" "today ?i1 = ''2024-01-15''" "today ?i2 = ''2024-01-15''"
    by (simp_all add: example_input_def example_employee_def)
  note T1 = recognize_state_machine [OF p1 m1]
  note T2 = recognize_state_machine [OF p2 m2]
  from T1 s1 f1 obtain row conf d' where
    r1: "recognize ?i1 (example_db []) = (Recognized ?e (Some row) check_in conf, d')"
        "dayState d' (e_id ?e) (today ?i1) = CheckedIn"
    by blast
  from T2 s2 t2 obtain ex att conf2 d2' where
    r2: "recognize ?i2 ?d2 = (Recognized ?e att check_out conf2, d2')"
        "dayState d2' (e_id ?e) (today ?i2) = Complete"
    by blast
  have l1: "(currentTime ?i1 > ''09:00'') = (9 * 60 < 8 * 60 + (30::nat))"
    by (rule T1 [THEN conjunct2, THEN conjunct2, rule_format, OF _ _ c1]) simp_all
  have v1: "fst (recognize ?i1 (example_db []))
     = Recognized ?e (Some (check_in_row ?i1 ?e)) check_in (85 / 100)"
  proof -
    have "random_confidence ?i1 = 0" by (simp add: example_input_def)
    then show ?thesis
      by (simp add: recognize_check_in [OF p1 m1 s1 [unfolded dayState_NoRecord] f1])
  qed
  have st: "a_status (check_in_row ?i1 ?e) = ''present''"
    by (simp add: check_in_row_def example_input_def)
  from r1 r2 l1 v1 st p1 m1 m2 s1 f1 s2 t2 ids show ?thesis
    by simp
qed

text \<open>
  C7: a scan of a complete day (the row has a check-out) is answered with the
  already-registered rejection and the database is returned as it was. A scan of a
  checked-in day leaves the employees and the number of rows as they were; the rows with
  the id of the day's row get the clock string as \<open>checkOut\<close> and keep every other
  field, and all other rows are unchanged.
\<close>

theorem complete_day_and_check_out_frame:
  assumes "truthy (photo inp)" and "matchedEmployee inp d = Some e"
  shows
   "(dayState d (e_id e) (today inp) = Complete \<longrightarrow>
       recognize inp d = (Already_in_and_out e, d)) \<and>
    (dayState d (e_id e) (today inp) = CheckedIn \<longrightarrow>
       (\<exists>ex att conf d'.
          getAttendanceByEmployee d (e_id e) (today inp) = Some ex \<and>
          recognize inp d = (Recognized e att check_out conf, d') \<and>
          employees d' = employees d \<and>
          length (attendanceRecords d') = length (attendanceRecords d) \<and>
          (\<forall>i<length (attendanceRecords d).
             attendanceRecords d' ! i =
               (if a_id (attendanceRecords d ! i) = a_id ex
                then (attendanceRecords d ! i)\<lparr>checkOut := Some (currentTime inp)\<rparr>
                else attendanceRecords d ! i))))"
proof (intro conjI impI)
  assume "dayState d (e_id e) (today inp) = Complete"
  then obtain ex where "getAttendanceByEmployee d (e_id e) (today inp) = Some ex"
    "truthy (checkOut ex)"
    by (auto simp: dayState_Complete)
  then show "recognize inp d = (Already_in_and_out e, d)"
    by (rule recognize_complete [OF assms])
next
  assume "dayState d (e_id e) (today inp) = CheckedIn"
  then obtain ex where ex: "getAttendanceByEmployee d (e_id e) (today inp) = Some ex"
    "\<not> truthy (checkOut ex)"
    by (auto simp: dayState_CheckedIn)
  let ?rows = "map (\<lambda>r. if a_id r = a_id ex then r\<lparr>checkOut := Some (currentTime inp)\<rparr> else r)
                 (attendanceRecords d)"
  let ?d' = "d\<lparr>attendanceRecords := ?rows\<rparr>"
  have "recognize inp d =
     (Recognized e (find (\<lambda>r. a_id r = a_id ex) ?rows) check_out
        (85 / 100 + random_confidence inp * (14 / 100)), ?d')"
    by (rule recognize_check_out [OF assms ex])
  moreover have "employees ?d' = employees d" by simp
  moreover have "length (attendanceRecords ?d') = length (attendanceRecords d)" by simp
  moreover have "\<forall>i<length (attendanceRecords d).
             attendanceRecords ?d' ! i =
               (if a_id (attendanceRecords d ! i) = a_id ex
                then (attendanceRecords d ! i)\<lparr>checkOut := Some (currentTime inp)\<rparr>
                else attendanceRecords d ! i)"
    by simp
  ultimately show "\<exists>ex att conf d'.
          getAttendanceByEmployee d (e_id e) (today inp) = Some ex \<and>
          recognize inp d = (Recognized e att check_out conf, d') \<and>
          employees d' = employees d \<and>
          length (attendanceRecords d') = length (attendanceRecords d) \<and>
          (\<forall>i<length (attendanceRecords d).
             attendanceRecords d' ! i =
               (if a_id (attendanceRecords d ! i) = a_id ex
                then (attendanceRecords d ! i)\<lparr>checkOut := Some (currentTime inp)\<rparr>
                else attendanceRecords d ! i))"
    using ex(1) by blast
qed

theorem complete_day_and_check_out_frame_witness:
  "truthy (photo (example_input ''18:10'' ''a3'')) \<and>
   matchedEmployee (example_input ''18:10'' ''a3'')
       (example_db [(check_in_row (example_input ''08:30'' ''a1'') (example_employee ''e1'' (Some ''[0]'')))
                      \<lparr>checkOut := Some ''17:45''\<rparr>])
     = Some (example_employee ''e1'' (Some ''[0]'')) \<and>
   dayState (example_db [(check_in_row (example_input ''08:30'' ''a1'') (example_employee ''e1'' (Some ''[0]'')))
                      \<lparr>checkOut := Some ''17:45''\<rparr>]) ''e1'' ''2024-01-15'' = Complete \<and>
   recognize (example_input ''18:10'' ''a3'')
       (example_db [(check_in_row (example_input ''08:30'' ''a1'') (example_employee ''e1'' (Some ''[0]'')))
                      \<lparr>checkOut := Some ''17:45''\<rparr>])
     = (Already_in_and_out (example_employee ''e1'' (Some ''[0]'')),
        example_db [(check_in_row (example_input ''08:30'' ''a1'') (example_employee ''e1'' (Some ''[0]'')))
                      \<lparr>checkOut := Some ''17:45''\<rparr>]) \<and>
   matchedEmployee (example_input ''17:45'' ''a2'')
       (example_db [check_in_row (example_input ''08:30'' ''a1'') (example_employee ''e1'' (Some ''[0]''))])
     = Some (example_employee ''e1'' (Some ''[0]'')) \<and>
   dayState (example_db [check_in_row (example_input ''08:30'' ''a1'') (example_employee ''e1'' (Some ''[0]''))])
       ''e1'' ''2024-01-15'' = CheckedIn \<and>
   (\<exists>att conf d'.
      recognize (example_input ''17:45'' ''a2'')
          (example_db [check_in_row (example_input ''08:30'' ''a1'') (example_employee ''e1'' (Some ''[0]''))])
        = (Recognized (example_employee ''e1'' (Some ''[0]'')) att check_out conf, d') \<and>
      attendanceRecords d' ! 0
        = (check_in_row (example_input ''08:30'' ''a1'') (example_employee ''e1'' (Some ''[0]'')))
            \<lparr>checkOut := Some ''17:45''\<rparr>)"
proof -
  let ?e = "example_employee ''e1'' (Some ''[0]'')"
  let ?i1 = "example_input ''08:30'' ''a1''"
  let ?i2 = "example_input ''17:45'' ''a2''"
  let ?i3 = "example_input ''18:10'' ''a3''"
  let ?d2 = "example_db [check_in_row ?i1 ?e]"
  let ?d3 = "example_db [(check_in_row ?i1 ?e)\<lparr>checkOut := Some ''17:45''\<rparr>]"
  have p2: "truthy (photo ?i2)" and p3: "truthy (photo ?i3)"
    by (simp_all add: example_input_def)
  have m2: "matchedEmployee ?i2 ?d2 = Some ?e"
    by (simp add: example_db_simps)
  have m3: "matchedEmployee ?i3 ?d3 = Some ?e"
    by (simp add: example_db_simps)
  have s2: "dayState ?d2 (e_id ?e) (today ?i2) = CheckedIn"
    by (simp add: example_db_simps)
  have s3: "dayState ?d3 (e_id ?e) (today ?i3) = Complete"
    by (simp add: example_db_simps)
  have ids: "e_id ?e = ''e1''" "today ?i2 = ''2024-01-15''" "today ?i3 = ''2024-01-15''"
    "currentTime ?i2 = ''17:45''"
    by (simp_all add: example_input_def example_employee_def)
  note T2 = complete_day_and_check_out_frame [OF p2 m2]
  note T3 = complete_day_and_check_out_frame [OF p3 m3]
  from T3 s3 have r3: "recognize ?i3 ?d3 = (Already_in_and_out ?e, ?d3)" by blast
  have l2: "0 < length (attendanceRecords ?d2)" "attendanceRecords ?d2 ! 0 = check_in_row ?i1 ?e"
    by (simp_all add: example_db_def)
  have g2: "getAttendanceByEmployee ?d2 (e_id ?e) (today ?i2) = Some (check_in_row ?i1 ?e)"
    by (simp add: example_db_simps)
  from T2 s2 obtain ex att conf d' where
    ex: "getAttendanceByEmployee ?d2 (e_id ?e) (today ?i2) = Some ex"
    and r2: "recognize ?i2 ?d2 = (Recognized ?e att check_out conf, d')"
    and fr: "\<forall>i<length (attendanceRecords ?d2).
             attendanceRecords d' ! i =
               (if a_id (attendanceRecords ?d2 ! i) = a_id ex
                then (attendanceRecords ?d2 ! i)\<lparr>checkOut := Some (currentTime ?i2)\<rparr>
                else attendanceRecords ?d2 ! i)"
    by blast
  from ex g2 have "ex = check_in_row ?i1 ?e" by simp
  with fr l2 ids(4) have "attendanceRecords d' ! 0 = (check_in_row ?i1 ?e)\<lparr>checkOut := Some ''17:45''\<rparr>"
    by simp
  with r2 have "\<exists>att conf d'.
      recognize ?i2 ?d2 = (Recognized ?e att check_out conf, d') \<and>
      attendanceRecords d' ! 0 = (check_in_row ?i1 ?e)\<lparr>checkOut := Some ''17:45''\<rparr>"
    by blast
  with r3 p3 m3 s3 m2 s2 ids show ?thesis by simp
qed

text \<open>
  C5: at most one row per employee and date. The recognition route keeps this
  (\<open>recognize_preserves_one_per_day\<close>), but \<open>POST /api/attendance\<close> only checks that
  the employee exists: posted for an employee and date that already have a row, it
  answers 201 and the table then holds two rows for that employee and date.
\<close>

theorem post_attendance_second_row:
  "one_per_day (attendanceRecords
      (example_db [check_in_row (example_input ''08:30'' ''a1'') (example_employee ''e1'' (Some ''[0]''))])) \<and>
   post_attendance (Some example_body) ''a2''
      (example_db [check_in_row (example_input ''08:30'' ''a1'') (example_employee ''e1'' (Some ''[0]''))])
     = (Attendance_201 (Some (new_row example_body ''a2'')),
        example_db [check_in_row (example_input ''08:30'' ''a1'') (example_employee ''e1'' (Some ''[0]'')),
                    new_row example_body ''a2'']) \<and>
   \<not> one_per_day (attendanceRecords
      (example_db [check_in_row (example_input ''08:30'' ''a1'') (example_employee ''e1'' (Some ''[0]'')),
                   new_row example_body ''a2'']))"
  by (simp add: post_attendance_def getEmployee_def createAttendance_def new_row_def
        one_per_day_def example_db_def example_body_def example_input_def example_employee_def
        check_in_row_def Let_def)

section \<open>The claim about the confidence\<close>

text \<open>
  C3 (as stated): the confidence of a match is \<open>max(0, 1 - distance / threshold)\<close>, and
  1.0 for a probe identical to an enrolled template. With a photo text identical to the
  only enrolled template (distance 0) the route reports the confidence 0.85.
\<close>

theorem reported_confidence_counterexample:
  "parseEmbedding example_runtime (photo (example_input ''08:30'' ''a1'')) = Some [Fin 0] \<and>
   parseEmbedding example_runtime (faceEmbedding (example_employee ''e1'' (Some ''[0]''))) = Some [Fin 0] \<and>
   euclideanDistance [Fin 0] [Fin 0] = Fin 0 \<and>
   fst (recognize (example_input ''08:30'' ''a1'') (example_db []))
     = Recognized (example_employee ''e1'' (Some ''[0]''))
         (Some (check_in_row (example_input ''08:30'' ''a1'') (example_employee ''e1'' (Some ''[0]''))))
         check_in (85 / 100) \<and>
   (85 / 100 :: real) \<noteq> max 0 (1 - 0 / (6 / 10))"
  by (simp add: ex_simps route_simps example_input_def example_db_def check_in_row_def)

text \<open>
  C3 (amended): the confidence the recognition route reports is 0.85 plus 0.14 times
  its second random draw, and no distance enters it; the lookup reports no confidence.
  For a probe whose vector of finite numbers is also the template of a candidate, the
  distance between the two is 0 and the lookup returns an employee whose template is at
  distance 0 from the probe.
\<close>

theorem reported_confidence_is_random:
  "(recognize inp d = (Recognized e att ty c, d') \<longrightarrow>
      c = 85 / 100 + random_confidence inp * (14 / 100)) \<and>
   (parseEmbedding rt (Some embedding) = Some xs \<longrightarrow> (\<forall>x\<in>set xs. \<exists>r. x = Fin r) \<longrightarrow>
    k \<in> set candidates \<longrightarrow> parseEmbedding rt (faceEmbedding k) = Some xs \<longrightarrow>
      euclideanDistance xs xs = Fin 0 \<and>
      (\<exists>m emb. getEmployeeByEmbedding rt embedding candidates = Some m \<and>
         parseEmbedding rt (faceEmbedding m) = Some emb \<and> euclideanDistance xs emb = Fin 0))"
proof (intro conjI impI)
  assume r: "recognize inp d = (Recognized e att ty c, d')"
  then show "c = 85 / 100 + random_confidence inp * (14 / 100)"
    by (rule recognize_confidence)
next
  assume t: "parseEmbedding rt (Some embedding) = Some xs"
    and fin: "\<forall>x\<in>set xs. \<exists>r. x = Fin r"
    and k: "k \<in> set candidates" "parseEmbedding rt (faceEmbedding k) = Some xs"
  show z: "euclideanDistance xs xs = Fin 0"
    using fin by (rule euclideanDistance_same)
  have near: "js_le (euclideanDistance xs xs) THRESHOLD"
    by (simp add: z THRESHOLD_value)
  have "getEmployeeByEmbedding rt embedding candidates \<noteq> None"
    using t k near by (auto simp: getEmployeeByEmbedding_def best_loop_None_iff)
  then obtain m where m: "getEmployeeByEmbedding rt embedding candidates = Some m" by auto
  from getEmployeeByEmbedding_minimal [OF m] t obtain emb where
    emb: "parseEmbedding rt (faceEmbedding m) = Some emb"
    and mn: "\<forall>c\<in>set candidates. \<forall>cemb. parseEmbedding rt (faceEmbedding c) = Some cemb \<longrightarrow>
              (euclideanDistance xs cemb \<noteq> NaN \<longrightarrow>
                 js_le (euclideanDistance xs emb) (euclideanDistance xs cemb))"
    by auto
  from mn k z have "js_le (euclideanDistance xs emb) (Fin 0)" by fastforce
  then have "euclideanDistance xs emb = Fin 0" by (rule euclideanDistance_le_zero)
  with m emb show "\<exists>m emb. getEmployeeByEmbedding rt embedding candidates = Some m \<and>
         parseEmbedding rt (faceEmbedding m) = Some emb \<and> euclideanDistance xs emb = Fin 0"
    by blast
qed

theorem reported_confidence_is_random_witness:
  "recognize (example_input ''08:30'' ''a1'') (example_db [])
     = (Recognized (example_employee ''e1'' (Some ''[0]''))
         (Some (check_in_row (example_input ''08:30'' ''a1'') (example_employee ''e1'' (Some ''[0]''))))
         check_in (85 / 100),
        example_db [check_in_row (example_input ''08:30'' ''a1'') (example_employee ''e1'' (Some ''[0]''))]) \<and>
   (85 / 100 :: real) = 85 / 100 + random_confidence (example_input ''08:30'' ''a1'') * (14 / 100) \<and>
   parseEmbedding example_runtime (Some ''[0]'') = Some [Fin 0] \<and>
   list_all (\<lambda>x. \<exists>r. x = Fin r) [Fin 0] \<and>
   example_employee ''e1'' (Some ''[0]'') \<in> set [example_employee ''e1'' (Some ''[0]'')] \<and>
   parseEmbedding example_runtime (faceEmbedding (example_employee ''e1'' (Some ''[0]''))) = Some [Fin 0] \<and>
   euclideanDistance [Fin 0] [Fin 0] = Fin 0 \<and>
   (\<exists>m emb. getEmployeeByEmbedding example_runtime ''[0]'' [example_employee ''e1'' (Some ''[0]'')] = Some m \<and>
      parseEmbedding example_runtime (faceEmbedding m) = Some emb \<and>
      euclideanDistance [Fin 0] emb = Fin 0)"
proof -
  let ?e = "example_employee ''e1'' (Some ''[0]'')"
  let ?i = "example_input ''08:30'' ''a1''"
  have r: "recognize ?i (example_db [])
     = (Recognized ?e (Some (check_in_row ?i ?e)) check_in (85 / 100), example_db [check_in_row ?i ?e])"
    by (simp add: route_simps example_input_def example_db_def check_in_row_def example_employee_def)
  have c: "random_confidence ?i = 0"
    by (simp add: example_input_def)
  have t: "parseEmbedding example_runtime (Some ''[0]'') = Some [Fin 0]"
    by (simp add: ex_simps)
  have fin: "\<forall>x\<in>set [Fin 0]. \<exists>r. x = Fin r" by simp
  have k: "?e \<in> set [?e]" by simp
  have pk: "parseEmbedding example_runtime (faceEmbedding ?e) = Some [Fin 0]"
    by (simp add: ex_simps)
  note T = reported_confidence_is_random
      [of ?i "example_db []" ?e "Some (check_in_row ?i ?e)" check_in "85 / 100"
          "example_db [check_in_row ?i ?e]" example_runtime "''[0]''" "[Fin 0]" ?e "[?e]"]
  from T r c t fin k pk show ?thesis by simp
qed

section \<open>The claim about the reports\<close>

lemma dashboard_absences:
  "absences (getDashboardStats d dt) =
     int (length (employees d)) -
     int (length (filter (\<lambda>r. date r = dt \<and> (a_status r = ''present'' \<or> a_status r = ''late''))
                    (attendanceRecords d)))"
  by (simp add: getDashboardStats_def Let_def)

lemma fold_init_days:
  "fold (\<lambda>dateStr m. m(dateStr \<mapsto> v)) days m dt = (if dt \<in> set days then Some v else m dt)"
  by (induction days arbitrary: m) auto

lemma count_record_absent:
  "map_option absent (count_record m r dt) =
     map_option (\<lambda>a. a - (if date r = dt \<and> (a_status r = ''present'' \<or> a_status r = ''late'')
                            then 1 else 0))
       (map_option absent (m dt))"
  by (cases "m (date r)"; cases "m dt") (auto simp: count_record_def)

lemma fold_count_record_absent:
  "map_option absent (fold (\<lambda>r m. count_record m r) rs m dt) =
     map_option (\<lambda>a. a - int (length (filter (\<lambda>r. date r = dt \<and>
                                  (a_status r = ''present'' \<or> a_status r = ''late'')) rs)))
       (map_option absent (m dt))"
proof (induction rs arbitrary: m)
  case Nil
  then show ?case by (simp add: option.map_ident)
next
  case (Cons r rs)
  show ?case
    by (simp add: Cons.IH count_record_absent option.map_comp comp_def del: map_option_eq_Some)
       (cases "m dt"; simp)
qed

lemma weekly_absent:
  assumes "dt \<in> set days"
  shows "\<exists>s. map_of (getWeeklyStats d days startDate endDate) dt = Some s \<and>
             absent s = int (length (employees d)) -
               int (length (filter (\<lambda>r. date r = dt \<and> (a_status r = ''present'' \<or> a_status r = ''late''))
                      (filter (\<lambda>r. startDate \<le> date r \<and> date r \<le> endDate) (attendanceRecords d))))"
proof -
  let ?total = "int (length (employees d))"
  let ?records = "filter (\<lambda>r. startDate \<le> date r \<and> date r \<le> endDate) (attendanceRecords d)"
  let ?init = "fold (\<lambda>dateStr m. m(dateStr \<mapsto> \<lparr>present = 0, late = 0, absent = ?total\<rparr>))
                 days Map.empty"
  let ?stats = "fold (\<lambda>r m. count_record m r) ?records ?init"
  have i: "?init dt = Some \<lparr>present = 0, late = 0, absent = ?total\<rparr>"
    using assms by (simp add: fold_init_days)
  from fold_count_record_absent [of ?records ?init dt] i
  obtain s where s: "?stats dt = Some s"
    and a: "absent s = ?total - int (length (filter (\<lambda>r. date r = dt \<and>
                                  (a_status r = ''present'' \<or> a_status r = ''late'')) ?records))"
    by (cases "?stats dt") auto
  have "map_of (getWeeklyStats d days startDate endDate) dt = Some (the (?stats dt))"
    using assms by (simp add: getWeeklyStats_def Let_def map_of_map_restrict)
  with s a show ?thesis by simp
qed

lemma length_filter_mem:
  assumes "distinct (map f xs)" and "distinct ks" and "set ks \<subseteq> set (map f xs)"
  shows "length (filter (\<lambda>x. f x \<in> set ks) xs) = length ks"
proof -
  let ?sel = "filter (\<lambda>k. k \<in> set ks) (map f xs)"
  have d: "distinct ?sel" using assms(1) by (rule distinct_filter)
  have s: "set ?sel = set ks" using assms(3) by auto
  have "length (filter (\<lambda>x. f x \<in> set ks) xs) = length ?sel"
    by (simp add: filter_map comp_def)
  also have "\<dots> = card (set ?sel)" by (rule distinct_card [OF d, symmetric])
  also have "\<dots> = card (set ks)" by (simp only: s)
  also have "\<dots> = length ks" by (rule distinct_card [OF assms(2)])
  finally show ?thesis .
qed

lemma one_per_day_date:
  assumes "one_per_day rows"
  shows "distinct (map employeeId (filter (\<lambda>r. date r = dt) rows))"
  using assms unfolding one_per_day_def
proof (induction rows)
  case Nil
  then show ?case by simp
next
  case (Cons r rows)
  then show ?case by (auto simp: image_iff)
qed

lemma absences_without_row:
  assumes ids: "distinct (map e_id (employees d))"
    and rows: "\<forall>r\<in>set (attendanceRecords d). date r = dt \<longrightarrow>
                 (a_status r = ''present'' \<or> a_status r = ''late'') \<and>
                 employeeId r \<in> set (map e_id (employees d))"
    and one: "one_per_day (attendanceRecords d)"
  shows "absences (getDashboardStats d dt) = int (employees_without_row d dt)"
proof -
  let ?R = "filter (\<lambda>r. date r = dt) (attendanceRecords d)"
  let ?ks = "map employeeId ?R"
  have p: "filter (\<lambda>r. date r = dt \<and> (a_status r = ''present'' \<or> a_status r = ''late''))
             (attendanceRecords d) = ?R"
    using rows by (intro filter_cong) auto
  have dk: "distinct ?ks" using one by (rule one_per_day_date)
  have sub: "set ?ks \<subseteq> set (map e_id (employees d))" using rows by auto
  have with_row: "length (filter (\<lambda>e. e_id e \<in> set ?ks) (employees d)) = length ?ks"
    by (rule length_filter_mem [OF ids dk sub])
  have eq: "(\<lambda>e. \<not> list_ex (\<lambda>r. employeeId r = e_id e \<and> date r = dt) (attendanceRecords d))
          = (\<lambda>e. \<not> e_id e \<in> set ?ks)"
    by (force simp: list_ex_iff fun_eq_iff image_iff)
  have w: "employees_without_row d dt = length (filter (\<lambda>e. \<not> e_id e \<in> set ?ks) (employees d))"
    unfolding employees_without_row_def eq by (rule refl)
  have "length (employees d) =
          length (filter (\<lambda>e. e_id e \<in> set ?ks) (employees d)) +
          length (filter (\<lambda>e. \<not> e_id e \<in> set ?ks) (employees d))"
    by (rule sum_length_filter_compl [symmetric])
  with with_row w have "length (employees d) = length ?R + employees_without_row d dt"
    by simp
  then show ?thesis by (simp add: dashboard_absences p)
qed

lemma recognize_statuses:
  "map a_status (attendanceRecords (snd (recognize inp d))) = map a_status (attendanceRecords d) \<or>
   (\<exists>st. (st = ''present'' \<or> st = ''late'') \<and>
      map a_status (attendanceRecords (snd (recognize inp d)))
        = map a_status (attendanceRecords d) @ [st])"
proof (cases "truthy (photo inp) \<and> matchedEmployee inp d \<noteq> None")
  case False
  then have "snd (recognize inp d) = d"
    by (auto simp: recognize_def matchedEmployee_def getAllEmployees_def Let_def)
  then show ?thesis by simp
next
  case True
  then obtain e where p: "truthy (photo inp)" and m: "matchedEmployee inp d = Some e" by auto
  show ?thesis
  proof (cases "getAttendanceByEmployee d (e_id e) (today inp)")
    case None
    show ?thesis
    proof (cases "uuid inp \<in> set (map a_id (attendanceRecords d))")
      case True
      with None have "snd (recognize inp d) = d"
        by (simp add: recognize_matched [OF p m] createAttendance_def)
      then show ?thesis by simp
    next
      case False
      show ?thesis
        by (rule disjI2) (simp add: recognize_check_in [OF p m None False] check_in_row_def)
    qed
  next
    case (Some ex)
    have st: "a_status \<circ> (\<lambda>r. if a_id r = a_id ex then r\<lparr>checkOut := Some (currentTime inp)\<rparr> else r)
          = a_status"
      by (auto simp: fun_eq_iff)
    show ?thesis
    proof (cases "truthy (checkOut ex)")
      case True
      then show ?thesis by (simp add: recognize_complete [OF p m Some])
    next
      case False
      then show ?thesis
        by (simp add: recognize_check_out [OF p m Some] st)
    qed
  qed
qed

lemmas seeded_simps = seeded_db_def seeded_rows_def initializeDatabase_def sampleEmployees_def

text \<open>
  C6 (as stated): the reports compute the absences of a date as the number of employees
  without an attendance row for that date, so 5 employees and 3 rows give 2. On the
  seeded database every one of the 5 employees has a row and the dashboard reports 1
  absence; with the 3 seeded rows of status present, late and absent only, 2 employees
  have no row and both reports give 3.
\<close>

theorem absences_counterexample:
  "length (employees seeded_db) = 5 \<and>
   length (filter (\<lambda>r. date r = ''2024-01-15'') (attendanceRecords seeded_db)) = 5 \<and>
   employees_without_row seeded_db ''2024-01-15'' = 0 \<and>
   absences (getDashboardStats seeded_db ''2024-01-15'') = 1 \<and>
   length (employees (seeded_rows [0, 1, 3])) = 5 \<and>
   length (filter (\<lambda>r. date r = ''2024-01-15'') (attendanceRecords (seeded_rows [0, 1, 3]))) = 3 \<and>
   employees_without_row (seeded_rows [0, 1, 3]) ''2024-01-15'' = 2 \<and>
   absences (getDashboardStats (seeded_rows [0, 1, 3]) ''2024-01-15'') = 3 \<and>
   map_option absent
     (map_of (getWeeklyStats (seeded_rows [0, 1, 3]) [''2024-01-15''] ''2024-01-15'' ''2024-01-15'')
        ''2024-01-15'') = Some 3"
  by (simp add: seeded_simps employees_without_row_def getDashboardStats_def getWeeklyStats_def
        count_record_def Let_def)

text \<open>
  C6 (amended): the dashboard computes the absences of a date as the number of employees
  minus the number of that date's rows with status present or late, and the weekly
  report does the same for each enumerated day over the rows of the range; a row with
  another status, such as the seeded absent row, is counted as an absence. When the
  employee ids are distinct, every row of the date has status present or late and
  belongs to an employee of the table, and no employee has two rows on a date, this is
  the number of employees without a row for the date. A scan leaves the statuses of the
  stored rows as they are or appends one row with status present or late.
\<close>

theorem absences_count_present_rows:
  "absences (getDashboardStats d dt) =
     int (length (employees d)) -
     int (length (filter (\<lambda>r. date r = dt \<and> (a_status r = ''present'' \<or> a_status r = ''late''))
                    (attendanceRecords d))) \<and>
   (dt \<in> set days \<longrightarrow>
      (\<exists>s. map_of (getWeeklyStats d days startDate endDate) dt = Some s \<and>
           absent s = int (length (employees d)) -
             int (length (filter (\<lambda>r. date r = dt \<and> (a_status r = ''present'' \<or> a_status r = ''late''))
                    (filter (\<lambda>r. startDate \<le> date r \<and> date r \<le> endDate) (attendanceRecords d)))))) \<and>
   (distinct (map e_id (employees d)) \<longrightarrow>
    (\<forall>r\<in>set (attendanceRecords d). date r = dt \<longrightarrow>
        (a_status r = ''present'' \<or> a_status r = ''late'') \<and>
        employeeId r \<in> set (map e_id (employees d))) \<longrightarrow>
    one_per_day (attendanceRecords d) \<longrightarrow>
      absences (getDashboardStats d dt) = int (employees_without_row d dt)) \<and>
   (map a_status (attendanceRecords (snd (recognize inp d))) = map a_status (attendanceRecords d) \<or>
    (\<exists>st. (st = ''present'' \<or> st = ''late'') \<and>
       map a_status (attendanceRecords (snd (recognize inp d)))
         = map a_status (attendanceRecords d) @ [st]))"
  using dashboard_absences [of d dt] weekly_absent [of dt days d startDate endDate]
    absences_without_row [of d dt] recognize_statuses [of inp d]
  by blast

theorem absences_count_present_rows_witness:
  "length (employees (seeded_rows [0, 1, 2])) = 5 \<and>
   length (attendanceRecords (seeded_rows [0, 1, 2])) = 3 \<and>
   ''2024-01-15'' \<in> set [''2024-01-15''] \<and>
   distinct (map e_id (employees (seeded_rows [0, 1, 2]))) \<and>
   list_all (\<lambda>r. date r = ''2024-01-15'' \<longrightarrow>
        (a_status r = ''present'' \<or> a_status r = ''late'') \<and>
        employeeId r \<in> set (map e_id (employees (seeded_rows [0, 1, 2]))))
     (attendanceRecords (seeded_rows [0, 1, 2])) \<and>
   one_per_day (attendanceRecords (seeded_rows [0, 1, 2])) \<and>
   employees_without_row (seeded_rows [0, 1, 2]) ''2024-01-15'' = 2 \<and>
   absences (getDashboardStats (seeded_rows [0, 1, 2]) ''2024-01-15'') = 2 \<and>
   (\<exists>s. map_of (getWeeklyStats (seeded_rows [0, 1, 2]) [''2024-01-15''] ''2024-01-15'' ''2024-01-15'')
          ''2024-01-15'' = Some s \<and> absent s = 2)"
proof -
  let ?d = "seeded_rows [0, 1, 2]"
  let ?dt = "''2024-01-15''"
  have n: "length (employees ?d) = 5" "length (attendanceRecords ?d) = 3"
    by (simp_all add: seeded_simps)
  have h1: "?dt \<in> set [?dt]" by simp
  have h2: "distinct (map e_id (employees ?d))"
    by (simp add: seeded_simps)
  have h3: "\<forall>r\<in>set (attendanceRecords ?d). date r = ?dt \<longrightarrow>
        (a_status r = ''present'' \<or> a_status r = ''late'') \<and>
        employeeId r \<in> set (map e_id (employees ?d))"
    by (simp add: seeded_simps)
  have h4: "one_per_day (attendanceRecords ?d)"
    by (simp add: seeded_simps one_per_day_def)
  have w: "employees_without_row ?d ?dt = 2"
    by (simp add: seeded_simps employees_without_row_def)
  have c: "length (filter (\<lambda>r. date r = ?dt \<and> (a_status r = ''present'' \<or> a_status r = ''late''))
             (filter (\<lambda>r. ?dt \<le> date r \<and> date r \<le> ?dt) (attendanceRecords ?d))) = 3"
    by (simp add: seeded_simps)
  note T = absences_count_present_rows [of ?d ?dt "[?dt]" ?dt ?dt]
  from T h2 h3 h4 have "absences (getDashboardStats ?d ?dt) = int (employees_without_row ?d ?dt)"
    by blast
  with w have a: "absences (getDashboardStats ?d ?dt) = 2" by simp
  from T h1 obtain s where
    s: "map_of (getWeeklyStats ?d [?dt] ?dt ?dt) ?dt = Some s"
       "absent s = int (length (employees ?d)) -
          int (length (filter (\<lambda>r. date r = ?dt \<and> (a_status r = ''present'' \<or> a_status r = ''late''))
             (filter (\<lambda>r. ?dt \<le> date r \<and> date r \<le> ?dt) (attendanceRecords ?d))))"
    by blast
  from s(2) have "absent s = 2" unfolding c n by simp
  with s(1) have "map_of (getWeeklyStats ?d [?dt] ?dt ?dt) ?dt = Some s \<and> absent s = 2"
    by simp
  then have "\<exists>s. map_of (getWeeklyStats ?d [?dt] ?dt ?dt) ?dt = Some s \<and> absent s = 2" ..
  with n h1 h2 h3 h4 w a show ?thesis by (simp add: list_all_iff)
qed

end
